theory Spec2Isabelle
  imports Main "HOL-Library.Sublist"
begin

section \<open>Remote action steps: pkg/runner/step_action_remote.go\<close>

text \<open>
  Go strings are byte sequences, modelled as \<open>string\<close> (a list of \<open>char\<close>, one per byte).
  The characters the parser inspects (\<open>/\<close>, \<open>@\<close>, line feed) are ASCII, and no byte of a
  multi-byte UTF-8 sequence is ASCII, so matching byte by byte agrees with Go's matching
  rune by rune.
\<close>

subsection \<open>Library functions of package strings\<close>

definition HasPrefix :: "string \<Rightarrow> string \<Rightarrow> bool" where
  "HasPrefix s pre = prefix pre s"

definition TrimPrefix :: "string \<Rightarrow> string \<Rightarrow> string" where
  "TrimPrefix s pre = (if HasPrefix s pre then drop (length pre) s else s)"

fun Contains :: "string \<Rightarrow> string \<Rightarrow> bool" where
  "Contains [] substr = (substr = [])"
| "Contains (c # cs) substr = (HasPrefix (c # cs) substr \<or> Contains cs substr)"

text \<open>
  \<open>strings.SplitN(s, "/", n)\<close> for the separator \<open>/\<close>: at most \<open>n\<close> pieces, the last one
  the unsplit remainder; \<open>n = 0\<close> gives no piece at all.
\<close>

fun SplitN :: "string \<Rightarrow> nat \<Rightarrow> string list" where
  "SplitN s 0 = []"
| "SplitN s (Suc 0) = [s]"
| "SplitN s (Suc (Suc n)) =
     (case dropWhile (\<lambda>c. c \<noteq> CHR ''/'') s of
        [] \<Rightarrow> [s]
      | _ # rest \<Rightarrow> takeWhile (\<lambda>c. c \<noteq> CHR ''/'') s # SplitN rest (Suc n))"

subsection \<open>The parsed reference\<close>

record remoteAction =
  URL :: string
  Org :: string
  Repo :: string
  Path :: string
  Ref :: string

definition CloneURL :: "remoteAction \<Rightarrow> string \<Rightarrow> string" where
  "CloneURL ra u =
     (let u' = (if URL ra = []
                then (if \<not> HasPrefix u ''http://'' \<and> \<not> HasPrefix u ''https://''
                      then ''https://'' @ u else u)
                else URL ra)
      in u' @ ''/'' @ Org ra @ ''/'' @ Repo ra)"

definition IsCheckout :: "remoteAction \<Rightarrow> bool" where
  "IsCheckout ra = (if Org ra = ''actions'' \<and> Repo ra = ''checkout'' then True else False)"

definition isJuegoInternalServerPrefix :: "string \<Rightarrow> bool" where
  "isJuegoInternalServerPrefix action =
     (if Contains action ''internal-git.juegostudio.net/git'' then True else False)"

definition hasAServicePrefix :: "string \<Rightarrow> bool" where
  "hasAServicePrefix action = (if isJuegoInternalServerPrefix action then True else False)"

subsection \<open>parseAction\<close>

text \<open>
  The source matches the regular expression
  \<^verbatim>\<open>^([^/@]+)/([^/@]+)(/([^@]*))?(@(.*))?$\<close>
  and fails when there is no match or group 6 is empty. Every group of the expression is
  followed by a character its own class excludes (or by the end of the text), so a match,
  when there is one, is the greedy one and the matcher below follows it left to right:
  group 1 up to the first \<open>/\<close> or \<open>@\<close>, a \<open>/\<close>, group 2 up to the next \<open>/\<close> or \<open>@\<close>, an
  optional \<open>/\<close> with group 4 up to the first \<open>@\<close>, an optional \<open>@\<close> with group 6 the rest.
  In Go \<open>.\<close> does not match a line feed and \<open>$\<close> is the end of the text, so a line feed
  after the \<open>@\<close> leaves no match; negated classes do match a line feed.
\<close>

definition notSlashAt :: "char \<Rightarrow> bool" where
  "notSlashAt c = (c \<noteq> CHR ''/'' \<and> c \<noteq> CHR ''@'')"

definition notAt :: "char \<Rightarrow> bool" where
  "notAt c = (c \<noteq> CHR ''@'')"

text \<open>Groups 5 and 6 on what is left after groups 1 to 4; \<open>None\<close> is the source's nil.\<close>

definition parseRef :: "string \<Rightarrow> string \<Rightarrow> string \<Rightarrow> string \<Rightarrow> remoteAction option" where
  "parseRef org repo pth rest =
     (case rest of
        [] \<Rightarrow> None
      | _ # ref \<Rightarrow>
          if ref = [] \<or> CHR 0x0A \<in> set ref then None
          else Some \<lparr>URL = [], Org = org, Repo = repo, Path = pth, Ref = ref\<rparr>)"

definition parseAction :: "string \<Rightarrow> remoteAction option" where
  "parseAction action =
     (let org = takeWhile notSlashAt action in
      if org = [] then None
      else case dropWhile notSlashAt action of
        [] \<Rightarrow> None
      | c1 # r2 \<Rightarrow>
          if c1 \<noteq> CHR ''/'' then None
          else let repo = takeWhile notSlashAt r2 in
            if repo = [] then None
            else case dropWhile notSlashAt r2 of
              [] \<Rightarrow> None
            | c3 # r4 \<Rightarrow>
                if c3 = CHR ''/''
                then parseRef org repo (takeWhile notAt r4) (dropWhile notAt r4)
                else parseRef org repo [] (c3 # r4))"

subsection \<open>newRemoteAction\<close>

text \<open>The body of the loop over the two schemas, for one schema whose prefix matched.\<close>

definition newRemoteActionWith :: "string \<Rightarrow> string \<Rightarrow> remoteAction option" where
  "newRemoteActionWith schema action =
     (if hasAServicePrefix action
      then (case SplitN (TrimPrefix action schema) 3 of
              [s0, s1, s2] \<Rightarrow>
                (case parseAction s2 of
                   None \<Rightarrow> None
                 | Some ret \<Rightarrow> Some (ret\<lparr>URL := schema @ s0 @ ''/'' @ s1\<rparr>))
            | _ \<Rightarrow> None)
      else (case SplitN (TrimPrefix action schema) 2 of
              [s0, s1] \<Rightarrow>
                (case parseAction s1 of
                   None \<Rightarrow> None
                 | Some ret \<Rightarrow> Some (ret\<lparr>URL := schema @ s0\<rparr>))
            | _ \<Rightarrow> None))"

definition newRemoteAction :: "string \<Rightarrow> remoteAction option" where
  "newRemoteAction action =
     (if HasPrefix action ''https://'' then newRemoteActionWith ''https://'' action
      else if HasPrefix action ''http://'' then newRemoteActionWith ''http://'' action
      else parseAction action)"

subsection \<open>safeFilename\<close>

text \<open>
  \<open>strings.NewReplacer\<close> with nine pairs of one-byte strings: each byte is looked up in
  the table and replaced by its partner, any other byte is kept.
\<close>

definition safeFilename_oldnew :: "(char \<times> char) list" where
  "safeFilename_oldnew =
     [(CHR ''<'', CHR ''-''), (CHR ''>'', CHR ''-''), (CHR '':'', CHR ''-''),
      (CHR 0x22, CHR ''-''), (CHR ''/'', CHR ''-''), (CHR 0x5C, CHR ''-''),
      (CHR ''|'', CHR ''-''), (CHR ''?'', CHR ''-''), (CHR ''*'', CHR ''-'')]"

definition Replace :: "(char \<times> char) list \<Rightarrow> string \<Rightarrow> string" where
  "Replace oldnew s = map (\<lambda>c. case map_of oldnew c of None \<Rightarrow> c | Some n \<Rightarrow> n) s"

definition safeFilename :: "string \<Rightarrow> string" where
  "safeFilename s = Replace safeFilename_oldnew s"

subsection \<open>The step and its collaborators\<close>

text \<open>
  The records hold the fields that this file of the source reads or writes. A run context
  has more fields than the three named here: they live in the record's extension, of type
  \<open>'z\<close>, so that a statement about a run context covers every field it has.
\<close>

record Step =
  Uses :: string
  With :: "string \<rightharpoonup> string"
  If_Value :: string

record Action =
  Runs_PreIf :: string
  Runs_PostIf :: string

record Config =
  NoSkipCheckout :: bool
  BindWorkdir :: bool
  Workdir :: string
  UseGitIgnore :: bool
  ReplaceGheActionWithGithubCom :: "string list"
  ReplaceGheActionTokenWithGithubCom :: string
  DefaultActionInstance :: string

record RunContext =
  Config :: Config
  Env :: "string \<rightharpoonup> string"
  ExtraPath :: "string list"

record GithubContext =
  Token :: string
  ActionRepository :: string
  ActionRef :: string

record NewGitCloneExecutorInput =
  inURL :: string
  inRef :: string
  inDir :: string
  inToken :: string

text \<open>
  Errors are values. \<open>ErrShortRef\<close> is the git package's error for an abbreviated commit
  id and carries the full commit that \<open>Commit()\<close> returns; \<open>ErrForceNeeded\<close> is go-git's
  error, with its rendered text; \<open>NilDereference\<close> stands for the panic of a method call
  or field read through a nil pointer.
\<close>

datatype error =
    Errorf string
  | ErrShortRef string
  | ErrForceNeeded string
  | ErrOther string
  | NilDereference

datatype stepStage = stepStagePre | stepStageMain | stepStagePost

text \<open>A handle to the executors that \<open>compositeExecutor\<close> builds from the nested steps.\<close>

datatype compositeSteps = CompositeSteps nat

text \<open>
  What an executor does to the outside, in the order it does it: the strings that the
  expression evaluator returned, the lines logged, the clones, the reads of an action
  definition, the copies into the container, the runs of an action and the calls that
  build or refresh a composite run context.
\<close>

datatype event =
    Interpolated string
  | Debugf string
  | Infof string
  | Clone NewGitCloneExecutorInput
  | ReadAction string string
  | CopyDirCall string string bool
  | RunAction string remoteAction
  | NewCompositeRunContext string
  | CompositeExecutor
  | EvaluateCompositeInputAndEnv

record 'z stepActionRemote =
  Step :: Step
  RunContext :: "'z RunContext_scheme"
  compositeRunContext :: "'z RunContext_scheme option"
  compositeSteps :: "compositeSteps option"
  readAction :: "Step \<Rightarrow> string \<Rightarrow> string \<Rightarrow> Action option \<times> error option"
  runAction :: "string \<Rightarrow> remoteAction \<Rightarrow> error option"
  action :: "Action option"
  env :: "string \<rightharpoonup> string"
  remoteAction :: "remoteAction option"

text \<open>
  An executor (\<open>func(ctx) error\<close>) run on a step: the error it returns (\<open>None\<close> is nil),
  the step as it leaves it, and its events.
\<close>

type_synonym 'z Executor =
  "'z stepActionRemote \<Rightarrow> error option \<times> 'z stepActionRemote \<times> event list"

text \<open>
  Everything the file calls but does not define: the process environment, the expression
  evaluator, the run context's methods, the clone executor, the job container, the
  helpers of the composite action and the functions of the Go library whose result
  depends on tables or on the platform. Each is a parameter of the model.
\<close>

record 'z world =
  Getenv :: "string \<Rightarrow> string"
  Interpolate :: "'z RunContext_scheme \<Rightarrow> string \<Rightarrow> string"
  rcGithubContext :: "'z RunContext_scheme \<Rightarrow> GithubContext"
  isLocalCheckout :: "GithubContext \<Rightarrow> Step \<Rightarrow> bool"
  ActionCacheDir :: "'z RunContext_scheme \<Rightarrow> string"
  gitClone :: "NewGitCloneExecutorInput \<Rightarrow> error option"
  EqualFold :: "string \<Rightarrow> string \<Rightarrow> bool"
  ToContainerPath :: "string \<Rightarrow> string"
  pathJoin :: "string \<Rightarrow> string \<Rightarrow> string"
  Separator :: char
  CopyDir :: "string \<Rightarrow> string \<Rightarrow> bool \<Rightarrow> error option"
  runStepExecutor :: "stepStage \<Rightarrow> 'z Executor \<Rightarrow> 'z Executor"
  getContainerActionPaths :: "Step \<Rightarrow> string \<Rightarrow> 'z RunContext_scheme \<Rightarrow> string \<times> string"
  newCompositeRunContext ::
    "'z RunContext_scheme \<Rightarrow> 'z stepActionRemote \<Rightarrow> string \<Rightarrow> 'z RunContext_scheme"
  compositeExecutor :: "'z RunContext_scheme \<Rightarrow> Action option \<Rightarrow> compositeSteps"
  evaluateCompositeInputAndEnv ::
    "'z RunContext_scheme \<Rightarrow> 'z stepActionRemote \<Rightarrow> string \<rightharpoonup> string"

subsection \<open>Executors of package common\<close>

text \<open>
  Modelled from the spec: \<open>common.NewInfoExecutor\<close> is not in this file. The spec's
  fast-forward case is "non-fatal; logged as informational": the executor logs its
  message at the informational level and returns no error.
\<close>

definition NewInfoExecutor :: "string \<Rightarrow> 'z Executor" where
  "NewInfoExecutor msg = (\<lambda>sar. (None, sar, [Infof msg]))"

text \<open>
  Modelled from the spec: \<open>common.NewPipelineExecutor\<close> is not in this file. The spec has
  the pipeline continue after the informational executor and has every failure surface
  to the caller: the executors run in order, a nil executor is passed over, and the first
  error ends the pipeline and is its result.
\<close>

fun NewPipelineExecutor :: "'z Executor option list \<Rightarrow> 'z Executor" where
  "NewPipelineExecutor [] sar = (None, sar, [])"
| "NewPipelineExecutor (None # es) sar = NewPipelineExecutor es sar"
| "NewPipelineExecutor (Some e # es) sar =
     (case e sar of
        (Some err, sar', evs) \<Rightarrow> (Some err, sar', evs)
      | (None, sar', evs) \<Rightarrow>
          (case NewPipelineExecutor es sar' of
             (r, sar'', evs') \<Rightarrow> (r, sar'', evs @ evs')))"

subsection \<open>Methods of the step\<close>

definition getGithubContext :: "'z world \<Rightarrow> 'z stepActionRemote \<Rightarrow> GithubContext" where
  "getGithubContext w sar =
     (let ghc = rcGithubContext w (RunContext sar) in
      case remoteAction sar of
        None \<Rightarrow> ghc
      | Some ra \<Rightarrow> ghc\<lparr>ActionRepository := Org ra @ ''/'' @ Repo ra, ActionRef := Ref ra\<rparr>)"

definition isActionOnGiteaInstance :: "'z world \<Rightarrow> string \<Rightarrow> bool" where
  "isActionOnGiteaInstance w act =
     (let gitInstanceURL = Getenv w ''GITEA_INSTANCE_URL'' in HasPrefix act gitInstanceURL)"

subsection \<open>prepareActionExecutor\<close>

text \<open>Lines 46 to 48: the uses string is interpolated, stored back into the step and parsed.\<close>

definition resolveUses :: "'z world \<Rightarrow> 'z stepActionRemote \<Rightarrow> 'z stepActionRemote" where
  "resolveUses w sar =
     (let uses = Interpolate w (RunContext sar) (Uses (Step sar))
      in sar\<lparr>Step := (Step sar)\<lparr>Uses := uses\<rparr>, remoteAction := newRemoteAction uses\<rparr>)"

text \<open>
  Lines 59 to 64: the loop over \<open>ReplaceGheActionWithGithubCom\<close>. \<open>sar.remoteAction\<close> and
  \<open>github\<close> are pointers, so the assignments change the step's reference and the github
  context that \<open>getGithubContext\<close> returned; the loop does not stop at the first match.
  Nothing reads that github context after the loop.
\<close>

fun replaceGheAction ::
  "'z world \<Rightarrow> string \<Rightarrow> string list \<Rightarrow> remoteAction \<times> GithubContext \<Rightarrow>
     remoteAction \<times> GithubContext" where
  "replaceGheAction w tok [] (ra, github) = (ra, github)"
| "replaceGheAction w tok (a # as) (ra, github) =
     (if EqualFold w (Org ra @ ''/'' @ Repo ra) a
      then replaceGheAction w tok as (ra\<lparr>URL := ''https://github.com''\<rparr>, github\<lparr>Token := tok\<rparr>)
      else replaceGheAction w tok as (ra, github))"

text \<open>Lines 65 to 84: the token, the cache directory and the input of the clone.\<close>

definition cloneInput :: "'z world \<Rightarrow> 'z stepActionRemote \<Rightarrow> remoteAction \<Rightarrow> NewGitCloneExecutorInput" where
  "cloneInput w sar ra =
     (let token = (if isActionOnGiteaInstance w
                       (CloneURL ra (DefaultActionInstance (Config (RunContext sar))))
                   then Getenv w ''GITEA_RUNNER_TOKEN'' else []);
          actionDir = ActionCacheDir w (RunContext sar) @ ''/'' @ safeFilename (Uses (Step sar))
      in \<lparr>inURL = CloneURL ra (DefaultActionInstance (Config (RunContext sar))),
          inRef = Ref ra, inDir = actionDir, inToken = token\<rparr>)"

definition cloneEvents :: "'z world \<Rightarrow> 'z stepActionRemote \<Rightarrow> remoteAction \<Rightarrow> event list" where
  "cloneEvents w sar ra =
     (if isActionOnGiteaInstance w (CloneURL ra (DefaultActionInstance (Config (RunContext sar))))
      then [Debugf ''Adding GITEA_RUNNER_TOKEN as Token''] else []) @
     [Clone (cloneInput w sar ra)]"

text \<open>Lines 86 to 95: what an error of the clone becomes, an error to return or \<open>ntErr\<close>.\<close>

fun cloneFailure :: "string \<Rightarrow> string \<Rightarrow> error \<Rightarrow> error + 'z Executor option" where
  "cloneFailure uses ref (ErrShortRef commit) =
     Inl (Errorf (''Unable to resolve action '' @ [CHR 0x60] @ uses @ [CHR 0x60] @
        '', the provided ref '' @ [CHR 0x60] @ ref @ [CHR 0x60] @
        '' is the shortened version of a commit SHA, which is not supported. '' @
        ''Please use the full commit SHA '' @ [CHR 0x60] @ commit @ [CHR 0x60] @ '' instead''))"
| "cloneFailure uses ref (ErrForceNeeded msg) =
     Inr (Some (NewInfoExecutor
        (''Non-terminating error while running '' @ [CHR 0x27] @ ''git clone'' @ [CHR 0x27] @
         '': '' @ msg)))"
| "cloneFailure uses ref err = Inl err"

text \<open>Lines 106 to 110: the executor that loads the action definition.\<close>

definition readActionExecutor :: "string \<Rightarrow> string \<Rightarrow> 'z Executor" where
  "readActionExecutor actionDir pth =
     (\<lambda>sar. case readAction sar (Step sar) actionDir pth of
        (actionModel, err) \<Rightarrow> (err, sar\<lparr>action := actionModel\<rparr>, [ReadAction actionDir pth]))"

text \<open>Lines 59 to 112, for a step whose reference \<open>ra\<close> has been parsed.\<close>

definition fetchAndRead ::
  "'z world \<Rightarrow> 'z stepActionRemote \<Rightarrow> remoteAction \<Rightarrow> GithubContext \<Rightarrow>
     error option \<times> 'z stepActionRemote \<times> event list" where
  "fetchAndRead w sar ra0 github0 =
     (let cfg = Config (RunContext sar);
          ra = fst (replaceGheAction w (ReplaceGheActionTokenWithGithubCom cfg)
                      (ReplaceGheActionWithGithubCom cfg) (ra0, github0));
          sar2 = sar\<lparr>remoteAction := Some ra\<rparr>;
          input = cloneInput w sar2 ra;
          evs = cloneEvents w sar2 ra
      in case gitClone w input of
           None \<Rightarrow>
             (case NewPipelineExecutor [None, Some (readActionExecutor (inDir input) (Path ra))] sar2 of
                (r, sar3, evs') \<Rightarrow> (r, sar3, evs @ evs'))
         | Some err \<Rightarrow>
             (case cloneFailure (Uses (Step sar2)) (Ref ra) err of
                Inl e \<Rightarrow> (Some e, sar2, evs)
              | Inr ntErr \<Rightarrow>
                  (case NewPipelineExecutor [ntErr, Some (readActionExecutor (inDir input) (Path ra))] sar2 of
                     (r, sar3, evs') \<Rightarrow> (r, sar3, evs @ evs'))))"

definition prepareActionExecutor :: "'z world \<Rightarrow> 'z Executor" where
  "prepareActionExecutor w sar =
     (if remoteAction sar \<noteq> None \<and> action sar \<noteq> None then (None, sar, [])
      else
        let sar1 = resolveUses w sar
        in case remoteAction sar1 of
             None \<Rightarrow>
               (Some (Errorf (''Expected format {org}/{repo}[/path]@ref. Actual '' @ [CHR 0x27] @
                    Uses (Step sar1) @ [CHR 0x27] @ '' Input string was not in a correct format'')),
                sar1, [Interpolated (Uses (Step sar1))])
           | Some ra \<Rightarrow>
               let github = getGithubContext w sar1 in
               if IsCheckout ra \<and> isLocalCheckout w github (Step sar1) \<and>
                  \<not> NoSkipCheckout (Config (RunContext sar1))
               then (None, sar1,
                     [Interpolated (Uses (Step sar1)),
                      Debugf ''Skipping local actions/checkout because workdir was already copied''])
               else (case fetchAndRead w sar1 ra github of
                       (r, sar3, evs) \<Rightarrow> (r, sar3, Interpolated (Uses (Step sar1)) # evs)))"

subsection \<open>main\<close>

text \<open>The function that main hands to \<open>runStepExecutor\<close> (lines 126 to 141).\<close>

definition mainStep :: "'z world \<Rightarrow> 'z Executor" where
  "mainStep w sar =
     (case remoteAction sar of
        None \<Rightarrow> (Some NilDereference, sar, [])
      | Some ra \<Rightarrow>
          let github = getGithubContext w sar in
          if IsCheckout ra \<and> isLocalCheckout w github (Step sar) \<and>
             \<not> NoSkipCheckout (Config (RunContext sar))
          then
            if BindWorkdir (Config (RunContext sar))
            then (None, sar,
                  [Debugf ''Skipping local actions/checkout because you bound your workspace''])
            else
              let pathInput = (case With (Step sar) ''path'' of None \<Rightarrow> [] | Some v \<Rightarrow> v);
                  copyToPath = pathJoin w (ToContainerPath w (Workdir (Config (RunContext sar))))
                                 (Interpolate w (RunContext sar) pathInput);
                  src = Workdir (Config (RunContext sar)) @ [Separator w] @ ''.''
              in (CopyDir w copyToPath src (UseGitIgnore (Config (RunContext sar))), sar,
                  [Interpolated (Interpolate w (RunContext sar) pathInput),
                   CopyDirCall copyToPath src (UseGitIgnore (Config (RunContext sar)))])
          else
            let actionDir = ActionCacheDir w (RunContext sar) @ ''/'' @ safeFilename (Uses (Step sar))
            in (runAction sar actionDir ra, sar, [RunAction actionDir ra]))"

definition main :: "'z world \<Rightarrow> 'z Executor" where
  "main w =
     NewPipelineExecutor
       [Some (prepareActionExecutor w), Some (runStepExecutor w stepStageMain (mainStep w))]"

subsection \<open>getIfExpression\<close>

definition getIfExpression :: "'z world \<Rightarrow> 'z stepActionRemote \<Rightarrow> stepStage \<Rightarrow> error + string" where
  "getIfExpression w sar stage =
     (case stage of
        stepStagePre \<Rightarrow>
          (case remoteAction sar of
             None \<Rightarrow> Inl NilDereference
           | Some ra \<Rightarrow>
               let github = getGithubContext w sar in
               if IsCheckout ra \<and> isLocalCheckout w github (Step sar) \<and>
                  \<not> NoSkipCheckout (Config (RunContext sar))
               then Inr ''false''
               else (case action sar of
                       None \<Rightarrow> Inl NilDereference
                     | Some a \<Rightarrow> Inr (Runs_PreIf a)))
      | stepStageMain \<Rightarrow> Inr (If_Value (Step sar))
      | stepStagePost \<Rightarrow>
          (case action sar of
             None \<Rightarrow> Inl NilDereference
           | Some a \<Rightarrow> Inr (Runs_PostIf a)))"

subsection \<open>getCompositeRunContext\<close>

definition getCompositeRunContext ::
  "'z world \<Rightarrow> 'z stepActionRemote \<Rightarrow>
     error + ('z RunContext_scheme \<times> 'z stepActionRemote \<times> event list)" where
  "getCompositeRunContext w sar =
     (case compositeRunContext sar of
        None \<Rightarrow>
          (case remoteAction sar of
             None \<Rightarrow> Inl NilDereference
           | Some ra \<Rightarrow>
               let actionDir = ActionCacheDir w (RunContext sar) @ ''/'' @
                                 safeFilename (Uses (Step sar));
                   actionLocation = pathJoin w actionDir (Path ra);
                   containerActionDir =
                     snd (getContainerActionPaths w (Step sar) actionLocation (RunContext sar));
                   crc = newCompositeRunContext w (RunContext sar) sar containerActionDir;
                   sar1 = sar\<lparr>compositeRunContext := Some crc\<rparr>;
                   sar2 = sar1\<lparr>compositeSteps := Some (compositeExecutor w crc (action sar1))\<rparr>
               in Inr (crc, sar2, [NewCompositeRunContext actionLocation, CompositeExecutor]))
      | Some crc \<Rightarrow>
          let env' = evaluateCompositeInputAndEnv w (RunContext sar) sar;
              crc' = crc\<lparr>Env := env', ExtraPath := ExtraPath (RunContext sar)\<rparr>
          in Inr (crc', sar\<lparr>compositeRunContext := Some crc'\<rparr>, [EvaluateCompositeInputAndEnv]))"


subsection \<open>Notions of the specification\<close>

text \<open>
  The specification's words for the version of a reference: everything after the last
  \<open>@\<close> of the string.
\<close>

definition afterLastAt :: "string \<Rightarrow> string" where
  "afterLastAt s = rev (takeWhile notAt (rev s))"

text \<open>
  The specification's words for the host of a URL: what stands between the \<open>://\<close> of the
  scheme and the next \<open>/\<close>.
\<close>

definition hostOf :: "string \<Rightarrow> string" where
  "hostOf url =
     takeWhile (\<lambda>c. c \<noteq> CHR ''/'')
       (if HasPrefix url ''https://'' then TrimPrefix url ''https://''
        else TrimPrefix url ''http://'')"

text \<open>
  The specification's words for the trigger of the checkout optimisation: a checkout
  action, on a working tree that the caller populated, with the skip not disabled.
\<close>

definition skipsLocalCheckout :: "'z world \<Rightarrow> 'z stepActionRemote \<Rightarrow> remoteAction \<Rightarrow> bool" where
  "skipsLocalCheckout w sar ra =
     ((Org ra = ''actions'' \<and> Repo ra = ''checkout'') \<and>
      isLocalCheckout w (getGithubContext w sar) (Step sar) \<and>
      \<not> NoSkipCheckout (Config (RunContext sar)))"

subsection \<open>A concrete runner\<close>

text \<open>
  A world and a step on which the statements below are evaluated. Its \<open>EqualFold\<close> folds
  the ASCII letters only, as Go's does on ASCII strings.
\<close>

definition toLowerASCII :: "char \<Rightarrow> char" where
  "toLowerASCII c =
     (case map_of (zip ''ABCDEFGHIJKLMNOPQRSTUVWXYZ'' ''abcdefghijklmnopqrstuvwxyz'') c of
        None \<Rightarrow> c
      | Some l \<Rightarrow> l)"

definition EqualFoldASCII :: "string \<Rightarrow> string \<Rightarrow> bool" where
  "EqualFoldASCII s t = (map toLowerASCII s = map toLowerASCII t)"

definition exampleConfig :: Config where
  "exampleConfig =
     \<lparr>NoSkipCheckout = False, BindWorkdir = False, Workdir = ''/work'', UseGitIgnore = True,
      ReplaceGheActionWithGithubCom = [], ReplaceGheActionTokenWithGithubCom = ''ghp'',
      DefaultActionInstance = ''github.com''\<rparr>"

definition exampleRunContext :: RunContext where
  "exampleRunContext = \<lparr>Config = exampleConfig, Env = Map.empty, ExtraPath = []\<rparr>"

definition exampleWorld :: "unit world" where
  "exampleWorld =
     \<lparr>Getenv = (\<lambda>k. if k = ''GITEA_INSTANCE_URL'' then ''https://gitea.example.com''
                     else if k = ''GITEA_RUNNER_TOKEN'' then ''secret'' else []),
      Interpolate = (\<lambda>_ s. s),
      rcGithubContext = (\<lambda>_. \<lparr>Token = ''run-token'', ActionRepository = [], ActionRef = []\<rparr>),
      isLocalCheckout = (\<lambda>_ _. False),
      ActionCacheDir = (\<lambda>_. ''/cache''),
      gitClone = (\<lambda>_. None),
      EqualFold = EqualFoldASCII,
      ToContainerPath = (\<lambda>p. p),
      pathJoin = (\<lambda>a b. a @ ''/'' @ b),
      Separator = CHR ''/'',
      CopyDir = (\<lambda>_ _ _. None),
      runStepExecutor = (\<lambda>_ e. e),
      getContainerActionPaths = (\<lambda>_ loc _. (loc, loc)),
      newCompositeRunContext = (\<lambda>rc _ _. rc),
      compositeExecutor = (\<lambda>_ _. CompositeSteps 0),
      evaluateCompositeInputAndEnv = (\<lambda>_ _. Map.empty)\<rparr>"

definition exampleStep :: "string \<Rightarrow> unit stepActionRemote" where
  "exampleStep uses =
     \<lparr>Step = \<lparr>Uses = uses, With = Map.empty, If_Value = []\<rparr>,
      RunContext = exampleRunContext,
      compositeRunContext = None,
      compositeSteps = None,
      readAction = (\<lambda>_ _ _. (Some \<lparr>Runs_PreIf = ''always()'', Runs_PostIf = ''always()''\<rparr>, None)),
      runAction = (\<lambda>_ _. None),
      action = None,
      env = Map.empty,
      remoteAction = None\<rparr>"

section \<open>Properties of the parser\<close>

text \<open>
  \<open>parseAction_sound\<close> and \<open>parseAction_complete\<close> relate the matcher to the language of
  the regular expression: the matcher accepts exactly the strings that are an org, a
  \<open>/\<close>, a repo, an optional \<open>/\<close> and subpath, an \<open>@\<close> and a version without line feed,
  with the classes of the expression, and returns these parts.
\<close>

lemma takeWhile_stop:
  "\<forall>x\<in>set xs. P x \<Longrightarrow> \<not> P y \<Longrightarrow> takeWhile P (xs @ y # ys) = xs"
  by (induction xs) auto

lemma dropWhile_stop:
  "\<forall>x\<in>set xs. P x \<Longrightarrow> \<not> P y \<Longrightarrow> dropWhile P (xs @ y # ys) = y # ys"
  by (induction xs) auto

lemma dropWhile_Cons_split:
  "dropWhile P xs = y # ys \<Longrightarrow> xs = takeWhile P xs @ y # ys \<and> \<not> P y"
  by (metis takeWhile_dropWhile_id hd_dropWhile list.sel(1) list.distinct(1))

lemma parseRef_Some:
  "parseRef org repo pth rest = Some ra \<Longrightarrow>
     \<exists>c. rest = c # Ref ra \<and> Ref ra \<noteq> [] \<and> CHR 0x0A \<notin> set (Ref ra) \<and>
         URL ra = [] \<and> Org ra = org \<and> Repo ra = repo \<and> Path ra = pth"
  by (auto simp: parseRef_def split: list.splits if_splits)

lemma parseAction_sound:
  assumes "parseAction s = Some ra"
  shows "\<exists>mid. s = Org ra @ ''/'' @ Repo ra @ mid @ ''@'' @ Ref ra \<and>
           (mid = [] \<and> Path ra = [] \<or> mid = ''/'' @ Path ra) \<and>
           Org ra \<noteq> [] \<and> Repo ra \<noteq> [] \<and> Ref ra \<noteq> [] \<and> URL ra = [] \<and>
           (\<forall>c\<in>set (Org ra). notSlashAt c) \<and> (\<forall>c\<in>set (Repo ra). notSlashAt c) \<and>
           (\<forall>c\<in>set (Path ra). notAt c) \<and> CHR 0x0A \<notin> set (Ref ra)"
proof -
  let ?org = "takeWhile notSlashAt s"
  from assms have org: "?org \<noteq> []"
    by (auto simp: parseAction_def Let_def split: if_splits)
  from assms obtain c1 r2 where d1: "dropWhile notSlashAt s = c1 # r2"
    by (auto simp: parseAction_def Let_def split: if_splits list.splits)
  from assms d1 org have c1: "c1 = CHR ''/''"
    by (auto simp: parseAction_def Let_def split: if_splits)
  let ?repo = "takeWhile notSlashAt r2"
  from assms d1 org c1 have repo: "?repo \<noteq> []"
    by (auto simp: parseAction_def Let_def split: if_splits)
  from assms d1 org c1 repo obtain c3 r4 where d2: "dropWhile notSlashAt r2 = c3 # r4"
    by (auto simp: parseAction_def Let_def split: if_splits list.splits)
  have s_eq: "s = ?org @ ''/'' @ r2"
    using dropWhile_Cons_split [OF d1] c1 by simp
  have r2_eq: "r2 = ?repo @ c3 # r4" and nc3: "\<not> notSlashAt c3"
    using dropWhile_Cons_split [OF d2] by simp_all
  have in_org: "\<forall>c\<in>set ?org. notSlashAt c" and in_repo: "\<forall>c\<in>set ?repo. notSlashAt c"
    by (auto dest: set_takeWhileD)
  show ?thesis
  proof (cases "c3 = CHR ''/''")
    case True
    with assms d1 org c1 repo d2
    have pr: "parseRef ?org ?repo (takeWhile notAt r4) (dropWhile notAt r4) = Some ra"
      by (simp add: parseAction_def Let_def)
    from parseRef_Some [OF pr] obtain c where
      dr: "dropWhile notAt r4 = c # Ref ra" and rest: "Ref ra \<noteq> []" "CHR 0x0A \<notin> set (Ref ra)"
        "URL ra = []" "Org ra = ?org" "Repo ra = ?repo" "Path ra = takeWhile notAt r4"
      by blast
    from dropWhile_Cons_split [OF dr] have r4_eq: "r4 = takeWhile notAt r4 @ c # Ref ra" and "\<not> notAt c"
      by simp_all
    then have c: "c = CHR ''@''" by (simp add: notAt_def)
    have "s = Org ra @ ''/'' @ Repo ra @ (''/'' @ Path ra) @ ''@'' @ Ref ra"
      using s_eq r2_eq r4_eq True c rest by simp
    moreover have "\<forall>c\<in>set (Path ra). notAt c"
      using rest by (auto dest: set_takeWhileD)
    ultimately show ?thesis
      using rest org repo in_org in_repo by (intro exI [of _ "''/'' @ Path ra"]) simp
  next
    case False
    with nc3 have c3: "c3 = CHR ''@''" by (simp add: notSlashAt_def)
    from False assms d1 org c1 repo d2
    have pr: "parseRef ?org ?repo [] (c3 # r4) = Some ra"
      by (simp add: parseAction_def Let_def)
    from parseRef_Some [OF pr] have rest: "r4 = Ref ra" "Ref ra \<noteq> []" "CHR 0x0A \<notin> set (Ref ra)"
        "URL ra = []" "Org ra = ?org" "Repo ra = ?repo" "Path ra = []"
      by auto
    have "s = Org ra @ ''/'' @ Repo ra @ [] @ ''@'' @ Ref ra"
      using s_eq r2_eq c3 rest by simp
    then show ?thesis
      using rest org repo in_org in_repo by (intro exI [of _ "[]"]) simp
  qed
qed

lemma parseAction_complete:
  assumes "org \<noteq> []" "repo \<noteq> []" "ref \<noteq> []" "CHR 0x0A \<notin> set ref"
    and "\<forall>c\<in>set org. notSlashAt c" "\<forall>c\<in>set repo. notSlashAt c" "\<forall>c\<in>set pth. notAt c"
    and "mid = [] \<and> pth = [] \<or> mid = ''/'' @ pth"
  shows "parseAction (org @ ''/'' @ repo @ mid @ ''@'' @ ref) =
           Some \<lparr>URL = [], Org = org, Repo = repo, Path = pth, Ref = ref\<rparr>"
proof -
  let ?s = "org @ ''/'' @ repo @ mid @ ''@'' @ ref"
  have ns: "\<not> notSlashAt (CHR ''/'')" "\<not> notSlashAt (CHR ''@'')" "\<not> notAt (CHR ''@'')"
    by (simp_all add: notSlashAt_def notAt_def)
  have t1: "takeWhile notSlashAt ?s = org" and d1: "dropWhile notSlashAt ?s = ''/'' @ repo @ mid @ ''@'' @ ref"
    using assms(5) ns by (simp_all add: takeWhile_stop dropWhile_stop)
  from assms(8) show ?thesis
  proof
    assume m: "mid = [] \<and> pth = []"
    have t2: "takeWhile notSlashAt (repo @ mid @ ''@'' @ ref) = repo"
      and d2: "dropWhile notSlashAt (repo @ mid @ ''@'' @ ref) = ''@'' @ ref"
      using assms(6) ns m by (simp_all add: takeWhile_stop dropWhile_stop)
    show ?thesis
      using t1 d1 t2 d2 assms(1-4) m
      by (simp add: parseAction_def parseRef_def Let_def)
  next
    assume m: "mid = ''/'' @ pth"
    have t2: "takeWhile notSlashAt (repo @ mid @ ''@'' @ ref) = repo"
      and d2: "dropWhile notSlashAt (repo @ mid @ ''@'' @ ref) = ''/'' @ pth @ ''@'' @ ref"
      using assms(6) ns m by (simp_all add: takeWhile_stop dropWhile_stop)
    have t3: "takeWhile notAt (pth @ ''@'' @ ref) = pth"
      and d3: "dropWhile notAt (pth @ ''@'' @ ref) = ''@'' @ ref"
      using assms(7) ns by (simp_all add: takeWhile_stop dropWhile_stop)
    show ?thesis
      using t1 d1 t2 d2 t3 d3 assms(1-4) m
      by (simp add: parseAction_def parseRef_def Let_def)
  qed
qed

lemma HasPrefix_append [simp]: "HasPrefix (p @ s) p"
  by (simp add: HasPrefix_def)

lemma TrimPrefix_append [simp]: "TrimPrefix (p @ s) p = s"
  by (simp add: TrimPrefix_def)


lemma takeWhile_slash:
  "CHR ''/'' \<notin> set h \<Longrightarrow> takeWhile (\<lambda>c. c \<noteq> CHR ''/'') (h @ CHR ''/'' # r) = h"
  by (induction h) auto

lemma dropWhile_slash:
  "CHR ''/'' \<notin> set h \<Longrightarrow> dropWhile (\<lambda>c. c \<noteq> CHR ''/'') (h @ CHR ''/'' # r) = CHR ''/'' # r"
  by (induction h) auto

lemma dropWhile_no_slash:
  "CHR ''/'' \<notin> set s \<Longrightarrow> dropWhile (\<lambda>c. c \<noteq> CHR ''/'') s = []"
  by (induction s) auto


lemma SplitN_2_slash:
  "CHR ''/'' \<notin> set h \<Longrightarrow> SplitN (h @ ''/'' @ r) 2 = [h, r]"
  by (simp add: numeral_2_eq_2 takeWhile_slash dropWhile_slash)

lemma SplitN_3_slash:
  "CHR ''/'' \<notin> set h \<Longrightarrow> CHR ''/'' \<notin> set g \<Longrightarrow>
     SplitN (h @ ''/'' @ g @ ''/'' @ r) 3 = [h, g, r]"
  by (simp add: numeral_3_eq_3 takeWhile_slash dropWhile_slash)







lemma parseAction_first_at:
  assumes "parseAction s = Some ra"
  shows "dropWhile notAt s = ''@'' @ Ref ra"
proof -
  from parseAction_sound [OF assms] obtain mid where
    s: "s = Org ra @ ''/'' @ Repo ra @ mid @ ''@'' @ Ref ra"
    and mid: "mid = [] \<and> Path ra = [] \<or> mid = ''/'' @ Path ra"
    and cls: "\<forall>c\<in>set (Org ra). notSlashAt c" "\<forall>c\<in>set (Repo ra). notSlashAt c" "\<forall>c\<in>set (Path ra). notAt c"
    by blast
  have o: "\<forall>c\<in>set (Org ra). notAt c" and r: "\<forall>c\<in>set (Repo ra). notAt c"
    using cls(1,2) by (simp_all add: notSlashAt_def notAt_def)
  have m: "\<forall>c\<in>set mid. notAt c"
  proof (rule disjE [OF mid])
    assume "mid = [] \<and> Path ra = []"
    then show ?thesis by simp
  next
    assume "mid = ''/'' @ Path ra"
    then show ?thesis using cls(3) by (simp add: notAt_def)
  qed
  have "\<forall>c\<in>set (Org ra @ ''/'' @ Repo ra @ mid). notAt c"
    using o r m by (simp add: ball_Un notAt_def)
  moreover have "\<not> notAt (CHR ''@'')" by (simp add: notAt_def)
  ultimately have "dropWhile notAt ((Org ra @ ''/'' @ Repo ra @ mid) @ CHR ''@'' # Ref ra) = CHR ''@'' # Ref ra"
    by (rule dropWhile_stop)
  then show ?thesis by (subst s) simp
qed




lemma newRemoteAction_schema:
  assumes "schema = ''https://'' \<or> schema = ''http://''"
  shows "newRemoteAction (schema @ rest) = newRemoteActionWith schema (schema @ rest)"
  using assms by (auto simp: newRemoteAction_def HasPrefix_def)

lemma newRemoteActionWith_plain:
  assumes "CHR ''/'' \<notin> set host" and "\<not> hasAServicePrefix (schema @ host @ ''/'' @ rest)"
  shows "newRemoteActionWith schema (schema @ host @ ''/'' @ rest) =
           map_option (\<lambda>ra. ra\<lparr>URL := schema @ host\<rparr>) (parseAction rest)"
  using assms SplitN_2_slash [of host rest]
  by (simp add: newRemoteActionWith_def split: option.splits)

lemma newRemoteActionWith_service:
  assumes "CHR ''/'' \<notin> set host" and "CHR ''/'' \<notin> set seg"
    and "hasAServicePrefix (schema @ host @ ''/'' @ seg @ ''/'' @ rest)"
  shows "newRemoteActionWith schema (schema @ host @ ''/'' @ seg @ ''/'' @ rest) =
           map_option (\<lambda>ra. ra\<lparr>URL := schema @ host @ ''/'' @ seg\<rparr>) (parseAction rest)"
  using assms SplitN_3_slash [of host seg rest]
  by (simp add: newRemoteActionWith_def split: option.splits)


lemma newRemoteActionWith_service_short:
  assumes "CHR ''/'' \<notin> set host" and "CHR ''/'' \<notin> set rest"
  and "hasAServicePrefix (schema @ host @ ''/'' @ rest)"
  shows "newRemoteActionWith schema (schema @ host @ ''/'' @ rest) = None"
proof -
  have "SplitN (host @ ''/'' @ rest) 3 = [host, rest]"
    using assms(1,2)
    by (simp add: numeral_3_eq_3 takeWhile_slash dropWhile_slash dropWhile_no_slash)
  with assms(3) show ?thesis by (simp add: newRemoteActionWith_def)
qed





text \<open>
  C5: after the scheme \<open>https://\<close> or \<open>http://\<close> and a host, a string that the service
  prefix predicate does not match is parsed as the host, a \<open>/\<close> and a reference of the
  standard grammar, with scheme and host as its base URL; a string that the predicate
  matches is parsed as the host, one more segment and a reference of the standard
  grammar, with scheme, host and that segment as its base URL, and does not parse when
  nothing follows that segment. The result is nil exactly when the standard grammar
  fails on the remainder. So \<open>https://example.com/org/repo@v1\<close> has the base URL
  \<open>https://example.com\<close>, the org \<open>org\<close>, the repo \<open>repo\<close> and the version \<open>v1\<close>.
\<close>

theorem url_forms:
  assumes "schema = ''https://'' \<or> schema = ''http://''" and "CHR ''/'' \<notin> set host"
  shows "(\<not> hasAServicePrefix (schema @ host @ ''/'' @ rest) \<longrightarrow>
       newRemoteAction (schema @ host @ ''/'' @ rest) =
         map_option (\<lambda>ra. ra\<lparr>URL := schema @ host\<rparr>) (parseAction rest)) \<and>
    (CHR ''/'' \<notin> set seg \<and> hasAServicePrefix (schema @ host @ ''/'' @ seg @ ''/'' @ rest) \<longrightarrow>
       newRemoteAction (schema @ host @ ''/'' @ seg @ ''/'' @ rest) =
         map_option (\<lambda>ra. ra\<lparr>URL := schema @ host @ ''/'' @ seg\<rparr>) (parseAction rest)) \<and>
    (CHR ''/'' \<notin> set seg \<and> hasAServicePrefix (schema @ host @ ''/'' @ seg) \<longrightarrow>
       newRemoteAction (schema @ host @ ''/'' @ seg) = None) \<and>
    newRemoteAction ''https://example.com/org/repo@v1'' =
      Some \<lparr>URL = ''https://example.com'', Org = ''org'', Repo = ''repo'', Path = [], Ref = ''v1''\<rparr>"
proof (intro conjI impI)
  assume "\<not> hasAServicePrefix (schema @ host @ ''/'' @ rest)"
  then show "newRemoteAction (schema @ host @ ''/'' @ rest) =
         map_option (\<lambda>ra. ra\<lparr>URL := schema @ host\<rparr>) (parseAction rest)"
    using newRemoteAction_schema [OF assms(1), of "host @ ''/'' @ rest"]
      newRemoteActionWith_plain [OF assms(2), of schema rest]
    by simp
next
  assume "CHR ''/'' \<notin> set seg \<and> hasAServicePrefix (schema @ host @ ''/'' @ seg @ ''/'' @ rest)"
  then show "newRemoteAction (schema @ host @ ''/'' @ seg @ ''/'' @ rest) =
         map_option (\<lambda>ra. ra\<lparr>URL := schema @ host @ ''/'' @ seg\<rparr>) (parseAction rest)"
    using newRemoteAction_schema [OF assms(1), of "host @ ''/'' @ seg @ ''/'' @ rest"]
      newRemoteActionWith_service [OF assms(2), of seg schema rest]
    by simp
next
  assume "CHR ''/'' \<notin> set seg \<and> hasAServicePrefix (schema @ host @ ''/'' @ seg)"
  then show "newRemoteAction (schema @ host @ ''/'' @ seg) = None"
    using newRemoteAction_schema [OF assms(1), of "host @ ''/'' @ seg"]
      newRemoteActionWith_service_short [OF assms(2), of seg schema]
    by simp
next
  have ns: "\<not> hasAServicePrefix (''https://'' @ ''example.com'' @ ''/'' @ ''org/repo@v1'')"
    by (simp add: hasAServicePrefix_def isJuegoInternalServerPrefix_def HasPrefix_def)
  have pa: "parseAction ''org/repo@v1'' =
      Some \<lparr>URL = [], Org = ''org'', Repo = ''repo'', Path = [], Ref = ''v1''\<rparr>"
    by (simp add: parseAction_def parseRef_def notSlashAt_def notAt_def)
  have "newRemoteAction (''https://'' @ ''example.com'' @ ''/'' @ ''org/repo@v1'') =
      map_option (\<lambda>ra. ra\<lparr>URL := ''https://'' @ ''example.com''\<rparr>) (parseAction ''org/repo@v1'')"
    using newRemoteAction_schema [of "''https://''" "''example.com'' @ ''/'' @ ''org/repo@v1''"]
      newRemoteActionWith_plain [of "''example.com''" "''https://''" "''org/repo@v1''"] ns
    by simp
  then show "newRemoteAction ''https://example.com/org/repo@v1'' =
      Some \<lparr>URL = ''https://example.com'', Org = ''org'', Repo = ''repo'', Path = [], Ref = ''v1''\<rparr>"
    by (simp add: pa)
qed

theorem url_forms_witness:
  "newRemoteAction (''http://'' @ ''example.com'' @ ''/'' @ ''org/repo/sub@v1'') =
     Some \<lparr>URL = ''http://example.com'', Org = ''org'', Repo = ''repo'', Path = ''sub'', Ref = ''v1''\<rparr> \<and>
   hasAServicePrefix
     (''https://'' @ ''internal-git.juegostudio.net'' @ ''/'' @ ''git'' @ ''/'' @ ''org/repo@v1'') \<and>
   newRemoteAction
     (''https://'' @ ''internal-git.juegostudio.net'' @ ''/'' @ ''git'' @ ''/'' @ ''org/repo@v1'') =
     Some \<lparr>URL = ''https://internal-git.juegostudio.net/git'', Org = ''org'', Repo = ''repo'',
           Path = [], Ref = ''v1''\<rparr> \<and>
   newRemoteAction (''https://'' @ ''internal-git.juegostudio.net'' @ ''/'' @ ''git'') = None"
proof -
  have s: "''http://'' = ''https://'' \<or> ''http://'' = ''http://''"
    "''https://'' = ''https://'' \<or> ''https://'' = ''http://''"
    by simp_all
  have h: "CHR ''/'' \<notin> set ''example.com''" "CHR ''/'' \<notin> set ''internal-git.juegostudio.net''"
    "CHR ''/'' \<notin> set ''git''"
    by simp_all
  have ns: "\<not> hasAServicePrefix (''http://'' @ ''example.com'' @ ''/'' @ ''org/repo/sub@v1'')"
    by (simp add: hasAServicePrefix_def isJuegoInternalServerPrefix_def HasPrefix_def)
  have sv: "hasAServicePrefix
     (''https://'' @ ''internal-git.juegostudio.net'' @ ''/'' @ ''git'' @ ''/'' @ ''org/repo@v1'')"
    "hasAServicePrefix (''https://'' @ ''internal-git.juegostudio.net'' @ ''/'' @ ''git'')"
    by (simp_all add: hasAServicePrefix_def isJuegoInternalServerPrefix_def HasPrefix_def)
  have pa: "parseAction ''org/repo/sub@v1'' =
      Some \<lparr>URL = [], Org = ''org'', Repo = ''repo'', Path = ''sub'', Ref = ''v1''\<rparr>"
    "parseAction ''org/repo@v1'' =
      Some \<lparr>URL = [], Org = ''org'', Repo = ''repo'', Path = [], Ref = ''v1''\<rparr>"
    by (simp_all add: parseAction_def parseRef_def notSlashAt_def notAt_def)
  have 1: "newRemoteAction (''http://'' @ ''example.com'' @ ''/'' @ ''org/repo/sub@v1'') =
     Some \<lparr>URL = ''http://example.com'', Org = ''org'', Repo = ''repo'', Path = ''sub'', Ref = ''v1''\<rparr>"
    using url_forms [OF s(1) h(1), where rest = "''org/repo/sub@v1''"] ns by (simp add: pa)
  have 2: "newRemoteAction
     (''https://'' @ ''internal-git.juegostudio.net'' @ ''/'' @ ''git'' @ ''/'' @ ''org/repo@v1'') =
     Some \<lparr>URL = ''https://internal-git.juegostudio.net/git'', Org = ''org'', Repo = ''repo'',
           Path = [], Ref = ''v1''\<rparr>"
    using url_forms [OF s(2) h(2), where seg = "''git''" and rest = "''org/repo@v1''"] sv(1) h(3) by (simp add: pa)
  have 3: "newRemoteAction (''https://'' @ ''internal-git.juegostudio.net'' @ ''/'' @ ''git'') = None"
    using url_forms [OF s(2) h(2), where seg = "''git''"] sv(2) h(3) by simp
  from 1 sv(1) 2 3 show ?thesis by (intro conjI)
qed

text \<open>
  C6, as the code has it: a bare reference that parses is its org, a \<open>/\<close>, its repo,
  then nothing or a \<open>/\<close> and its subpath, then an \<open>@\<close> and its version. Org and repo are
  not empty and hold neither \<open>/\<close> nor \<open>@\<close>, the subpath holds no \<open>@\<close>, and the version
  is not empty: the \<open>@\<close> before the version is the first \<open>@\<close> of the string, the subpath
  is what stands between the \<open>/\<close> after the repo and that first \<open>@\<close>, and the version is
  everything after it, further \<open>@\<close> included. So \<open>actions/checkout@v4\<close> has the org
  \<open>actions\<close>, the repo \<open>checkout\<close>, no subpath and the version \<open>v4\<close>, and
  \<open>actions/checkout/subdir@v4\<close> has the subpath \<open>subdir\<close>.
\<close>

theorem parseAction_fields:
  "(parseAction s = Some ra \<longrightarrow>
      (\<exists>mid. s = Org ra @ ''/'' @ Repo ra @ mid @ ''@'' @ Ref ra \<and>
         (mid = [] \<and> Path ra = [] \<or> mid = ''/'' @ Path ra)) \<and>
      Org ra \<noteq> [] \<and> CHR ''/'' \<notin> set (Org ra) \<and> CHR ''@'' \<notin> set (Org ra) \<and>
      Repo ra \<noteq> [] \<and> CHR ''/'' \<notin> set (Repo ra) \<and> CHR ''@'' \<notin> set (Repo ra) \<and>
      CHR ''@'' \<notin> set (Path ra) \<and>
      Ref ra \<noteq> [] \<and> Ref ra = tl (dropWhile (\<lambda>c. c \<noteq> CHR ''@'') s)) \<and>
   parseAction ''actions/checkout@v4'' =
     Some \<lparr>URL = [], Org = ''actions'', Repo = ''checkout'', Path = [], Ref = ''v4''\<rparr> \<and>
   parseAction ''actions/checkout/subdir@v4'' =
     Some \<lparr>URL = [], Org = ''actions'', Repo = ''checkout'', Path = ''subdir'', Ref = ''v4''\<rparr>"
proof (intro conjI impI)
  assume a: "parseAction s = Some ra"
  from parseAction_sound [OF a] obtain mid where
    s: "s = Org ra @ ''/'' @ Repo ra @ mid @ ''@'' @ Ref ra"
    and mid: "mid = [] \<and> Path ra = [] \<or> mid = ''/'' @ Path ra"
    and ne: "Org ra \<noteq> []" "Repo ra \<noteq> []" "Ref ra \<noteq> []"
    and cls: "\<forall>c\<in>set (Org ra). notSlashAt c" "\<forall>c\<in>set (Repo ra). notSlashAt c"
      "\<forall>c\<in>set (Path ra). notAt c"
    by (elim exE conjE)
  from s mid show "\<exists>mid. s = Org ra @ ''/'' @ Repo ra @ mid @ ''@'' @ Ref ra \<and>
         (mid = [] \<and> Path ra = [] \<or> mid = ''/'' @ Path ra)"
    by (intro exI [of _ mid] conjI)
  from ne show "Org ra \<noteq> []" "Repo ra \<noteq> []" "Ref ra \<noteq> []" by simp_all
  from cls(1) show "CHR ''/'' \<notin> set (Org ra)" "CHR ''@'' \<notin> set (Org ra)"
    unfolding notSlashAt_def by blast+
  from cls(2) show "CHR ''/'' \<notin> set (Repo ra)" "CHR ''@'' \<notin> set (Repo ra)"
    unfolding notSlashAt_def by blast+
  from cls(3) show "CHR ''@'' \<notin> set (Path ra)"
    unfolding notAt_def by blast
  have "dropWhile notAt s = ''@'' @ Ref ra" by (rule parseAction_first_at [OF a])
  then show "Ref ra = tl (dropWhile (\<lambda>c. c \<noteq> CHR ''@'') s)"
    unfolding notAt_def by simp
next
  show "parseAction ''actions/checkout@v4'' =
     Some \<lparr>URL = [], Org = ''actions'', Repo = ''checkout'', Path = [], Ref = ''v4''\<rparr>"
    by (simp add: parseAction_def parseRef_def notSlashAt_def notAt_def)
  show "parseAction ''actions/checkout/subdir@v4'' =
     Some \<lparr>URL = [], Org = ''actions'', Repo = ''checkout'', Path = ''subdir'', Ref = ''v4''\<rparr>"
    by (simp add: parseAction_def parseRef_def notSlashAt_def notAt_def)
qed

theorem parseAction_fields_witness:
  "parseAction ''org/repo/dir@release@2'' =
     Some \<lparr>URL = [], Org = ''org'', Repo = ''repo'', Path = ''dir'', Ref = ''release@2''\<rparr> \<and>
   Ref \<lparr>URL = [], Org = ''org'', Repo = ''repo'', Path = ''dir'', Ref = ''release@2''\<rparr> =
     tl (dropWhile (\<lambda>c. c \<noteq> CHR ''@'') ''org/repo/dir@release@2'')"
proof -
  let ?ra = "\<lparr>URL = [], Org = ''org'', Repo = ''repo'', Path = ''dir'', Ref = ''release@2''\<rparr>"
  have p: "parseAction ''org/repo/dir@release@2'' = Some ?ra"
    by (simp add: parseAction_def parseRef_def notSlashAt_def notAt_def)
  from parseAction_fields [where s = "''org/repo/dir@release@2''" and ra = ?ra] p
  have "Ref ?ra = tl (dropWhile (\<lambda>c. c \<noteq> CHR ''@'') ''org/repo/dir@release@2'')"
    by blast
  with p show ?thesis by (intro conjI)
qed

text \<open>
  C6, in the words of the specification, has the version be everything after the last
  \<open>@\<close>. The version that the code takes from \<open>org/repo@release@2\<close> is \<open>release@2\<close>, where
  the text after the last \<open>@\<close> is \<open>2\<close>.
\<close>

theorem version_after_last_at_counterexample:
  "parseAction ''org/repo@release@2'' =
     Some \<lparr>URL = [], Org = ''org'', Repo = ''repo'', Path = [], Ref = ''release@2''\<rparr> \<and>
   afterLastAt ''org/repo@release@2'' = ''2'' \<and>
   map_option Ref (parseAction ''org/repo@release@2'') \<noteq> Some (afterLastAt ''org/repo@release@2'')"
  by (simp add: parseAction_def parseRef_def notSlashAt_def notAt_def afterLastAt_def)

section \<open>The checkout optimisation\<close>

text \<open>
  C2: a reference is a checkout action exactly when its org is actions and its repo is
  checkout. For a step with such a reference, on a working tree that the caller populated
  and with the skip not disabled, the condition of the pre stage is the constant false,
  and the main stage copies the working directory of the caller into the container (the
  destination is the container's path of the working directory joined with the
  interpolated path input), or does nothing but log when the working directory is bound.
  For every other step the condition of the pre stage is the one of the action definition
  and the main stage runs the action from its cache directory.
\<close>

theorem checkout_skip:
  assumes "remoteAction sar = Some ra"
  shows "(IsCheckout ra \<longleftrightarrow> Org ra = ''actions'' \<and> Repo ra = ''checkout'') \<and>
    (skipsLocalCheckout w sar ra \<longrightarrow>
       getIfExpression w sar stepStagePre = Inr ''false'' \<and>
       (BindWorkdir (Config (RunContext sar)) \<longrightarrow>
          mainStep w sar =
            (None, sar, [Debugf ''Skipping local actions/checkout because you bound your workspace''])) \<and>
       (\<not> BindWorkdir (Config (RunContext sar)) \<longrightarrow>
          mainStep w sar =
            (CopyDir w
               (pathJoin w (ToContainerPath w (Workdir (Config (RunContext sar))))
                  (Interpolate w (RunContext sar)
                     (case With (Step sar) ''path'' of None \<Rightarrow> [] | Some v \<Rightarrow> v)))
               (Workdir (Config (RunContext sar)) @ [Separator w] @ ''.'')
               (UseGitIgnore (Config (RunContext sar))),
             sar,
             [Interpolated
                (Interpolate w (RunContext sar)
                   (case With (Step sar) ''path'' of None \<Rightarrow> [] | Some v \<Rightarrow> v)),
              CopyDirCall
               (pathJoin w (ToContainerPath w (Workdir (Config (RunContext sar))))
                  (Interpolate w (RunContext sar)
                     (case With (Step sar) ''path'' of None \<Rightarrow> [] | Some v \<Rightarrow> v)))
               (Workdir (Config (RunContext sar)) @ [Separator w] @ ''.'')
               (UseGitIgnore (Config (RunContext sar)))]))) \<and>
    (\<not> skipsLocalCheckout w sar ra \<longrightarrow>
       getIfExpression w sar stepStagePre =
         (case action sar of None \<Rightarrow> Inl NilDereference | Some a \<Rightarrow> Inr (Runs_PreIf a)) \<and>
       mainStep w sar =
         (runAction sar
            (ActionCacheDir w (RunContext sar) @ ''/'' @ safeFilename (Uses (Step sar))) ra,
          sar,
          [RunAction (ActionCacheDir w (RunContext sar) @ ''/'' @ safeFilename (Uses (Step sar))) ra]))"
proof -
  have c: "IsCheckout ra \<longleftrightarrow> Org ra = ''actions'' \<and> Repo ra = ''checkout''"
    by (simp add: IsCheckout_def)
  have s: "skipsLocalCheckout w sar ra \<longleftrightarrow>
      IsCheckout ra \<and> isLocalCheckout w (getGithubContext w sar) (Step sar) \<and>
      \<not> NoSkipCheckout (Config (RunContext sar))"
    unfolding skipsLocalCheckout_def c by (rule refl)
  have pre1: "skipsLocalCheckout w sar ra \<Longrightarrow> getIfExpression w sar stepStagePre = Inr ''false''"
    using assms by (simp add: getIfExpression_def s Let_def)
  have pre2: "\<not> skipsLocalCheckout w sar ra \<Longrightarrow> getIfExpression w sar stepStagePre =
         (case action sar of None \<Rightarrow> Inl NilDereference | Some a \<Rightarrow> Inr (Runs_PreIf a))"
    using assms unfolding s by (auto simp: getIfExpression_def Let_def)
  have m1: "skipsLocalCheckout w sar ra \<Longrightarrow> BindWorkdir (Config (RunContext sar)) \<Longrightarrow>
          mainStep w sar =
            (None, sar, [Debugf ''Skipping local actions/checkout because you bound your workspace''])"
    using assms by (simp add: mainStep_def s Let_def)
  have m2: "skipsLocalCheckout w sar ra \<Longrightarrow> \<not> BindWorkdir (Config (RunContext sar)) \<Longrightarrow>
          mainStep w sar =
            (CopyDir w
               (pathJoin w (ToContainerPath w (Workdir (Config (RunContext sar))))
                  (Interpolate w (RunContext sar)
                     (case With (Step sar) ''path'' of None \<Rightarrow> [] | Some v \<Rightarrow> v)))
               (Workdir (Config (RunContext sar)) @ [Separator w] @ ''.'')
               (UseGitIgnore (Config (RunContext sar))),
             sar,
             [Interpolated
                (Interpolate w (RunContext sar)
                   (case With (Step sar) ''path'' of None \<Rightarrow> [] | Some v \<Rightarrow> v)),
              CopyDirCall
               (pathJoin w (ToContainerPath w (Workdir (Config (RunContext sar))))
                  (Interpolate w (RunContext sar)
                     (case With (Step sar) ''path'' of None \<Rightarrow> [] | Some v \<Rightarrow> v)))
               (Workdir (Config (RunContext sar)) @ [Separator w] @ ''.'')
               (UseGitIgnore (Config (RunContext sar)))])"
    using assms by (simp add: mainStep_def s Let_def)
  have m3: "\<not> skipsLocalCheckout w sar ra \<Longrightarrow> mainStep w sar =
         (runAction sar
            (ActionCacheDir w (RunContext sar) @ ''/'' @ safeFilename (Uses (Step sar))) ra,
          sar,
          [RunAction (ActionCacheDir w (RunContext sar) @ ''/'' @ safeFilename (Uses (Step sar))) ra])"
    using assms unfolding s by (auto simp: mainStep_def Let_def)
  from c pre1 pre2 m1 m2 m3 show ?thesis by blast
qed

theorem checkout_skip_witness:
  "skipsLocalCheckout (exampleWorld\<lparr>isLocalCheckout := (\<lambda>_ _. True)\<rparr>)
     ((exampleStep ''actions/checkout@v4'')\<lparr>remoteAction :=
        Some \<lparr>URL = [], Org = ''actions'', Repo = ''checkout'', Path = [], Ref = ''v4''\<rparr>\<rparr>)
     \<lparr>URL = [], Org = ''actions'', Repo = ''checkout'', Path = [], Ref = ''v4''\<rparr> \<and>
   getIfExpression (exampleWorld\<lparr>isLocalCheckout := (\<lambda>_ _. True)\<rparr>)
     ((exampleStep ''actions/checkout@v4'')\<lparr>remoteAction :=
        Some \<lparr>URL = [], Org = ''actions'', Repo = ''checkout'', Path = [], Ref = ''v4''\<rparr>\<rparr>)
     stepStagePre = Inr ''false'' \<and>
   snd (snd (mainStep (exampleWorld\<lparr>isLocalCheckout := (\<lambda>_ _. True)\<rparr>)
     ((exampleStep ''actions/checkout@v4'')\<lparr>remoteAction :=
        Some \<lparr>URL = [], Org = ''actions'', Repo = ''checkout'', Path = [], Ref = ''v4''\<rparr>\<rparr>))) =
     [Interpolated [], CopyDirCall ''/work/'' ''/work/.'' True] \<and>
   snd (snd (mainStep (exampleWorld\<lparr>isLocalCheckout := (\<lambda>_ _. True)\<rparr>)
     ((exampleStep ''actions/checkout@v4'')\<lparr>
        RunContext := exampleRunContext\<lparr>Config := exampleConfig\<lparr>BindWorkdir := True\<rparr>\<rparr>,
        remoteAction :=
          Some \<lparr>URL = [], Org = ''actions'', Repo = ''checkout'', Path = [], Ref = ''v4''\<rparr>\<rparr>))) =
     [Debugf ''Skipping local actions/checkout because you bound your workspace''] \<and>
   \<not> skipsLocalCheckout exampleWorld
     ((exampleStep ''actions/checkout@v4'')\<lparr>remoteAction :=
        Some \<lparr>URL = [], Org = ''actions'', Repo = ''checkout'', Path = [], Ref = ''v4''\<rparr>\<rparr>)
     \<lparr>URL = [], Org = ''actions'', Repo = ''checkout'', Path = [], Ref = ''v4''\<rparr> \<and>
   snd (snd (mainStep exampleWorld
     ((exampleStep ''actions/checkout@v4'')\<lparr>remoteAction :=
        Some \<lparr>URL = [], Org = ''actions'', Repo = ''checkout'', Path = [], Ref = ''v4''\<rparr>\<rparr>))) =
     [RunAction ''/cache/actions-checkout@v4''
        \<lparr>URL = [], Org = ''actions'', Repo = ''checkout'', Path = [], Ref = ''v4''\<rparr>]"
proof -
  let ?ra = "\<lparr>URL = [], Org = ''actions'', Repo = ''checkout'', Path = [], Ref = ''v4''\<rparr>"
  let ?w = "exampleWorld\<lparr>isLocalCheckout := (\<lambda>_ _. True)\<rparr>"
  let ?sar = "(exampleStep ''actions/checkout@v4'')\<lparr>remoteAction := Some ?ra\<rparr>"
  let ?bound = "(exampleStep ''actions/checkout@v4'')\<lparr>
        RunContext := exampleRunContext\<lparr>Config := exampleConfig\<lparr>BindWorkdir := True\<rparr>\<rparr>,
        remoteAction := Some ?ra\<rparr>"
  have skip: "skipsLocalCheckout ?w ?sar ?ra"
    by (simp add: skipsLocalCheckout_def exampleWorld_def exampleStep_def exampleRunContext_def
        exampleConfig_def)
  have skipb: "skipsLocalCheckout ?w ?bound ?ra"
    by (simp add: skipsLocalCheckout_def exampleWorld_def exampleStep_def exampleRunContext_def
        exampleConfig_def)
  have noskip: "\<not> skipsLocalCheckout exampleWorld ?sar ?ra"
    by (simp add: skipsLocalCheckout_def exampleWorld_def)
  have nb: "\<not> BindWorkdir (Config (RunContext ?sar))"
    by (simp add: exampleStep_def exampleRunContext_def exampleConfig_def)
  have b: "BindWorkdir (Config (RunContext ?bound))"
    by simp
  have r: "remoteAction ?sar = Some ?ra" "remoteAction ?bound = Some ?ra"
    by simp_all
  from checkout_skip [OF r(1), of ?w] skip nb
  have 1: "getIfExpression ?w ?sar stepStagePre = Inr ''false''"
    and 2: "snd (snd (mainStep ?w ?sar)) = [Interpolated [], CopyDirCall ''/work/'' ''/work/.'' True]"
    by (simp_all add: exampleWorld_def exampleStep_def exampleRunContext_def exampleConfig_def)
  from checkout_skip [OF r(2), of ?w] skipb b
  have 3: "snd (snd (mainStep ?w ?bound)) =
      [Debugf ''Skipping local actions/checkout because you bound your workspace'']"
    by simp
  from checkout_skip [OF r(1), of exampleWorld] noskip
  have 4: "snd (snd (mainStep exampleWorld ?sar)) = [RunAction ''/cache/actions-checkout@v4'' ?ra]"
    by (simp add: exampleWorld_def exampleStep_def exampleRunContext_def exampleConfig_def
        safeFilename_def Replace_def safeFilename_oldnew_def)
  from skip 1 2 3 noskip 4 show ?thesis by blast
qed

section \<open>Properties of the fetch\<close>

lemma replaceGheAction_Org_Repo:
  "Org (fst (replaceGheAction w tok as (ra, github))) = Org ra \<and>
   Repo (fst (replaceGheAction w tok as (ra, github))) = Repo ra \<and>
   Path (fst (replaceGheAction w tok as (ra, github))) = Path ra \<and>
   Ref (fst (replaceGheAction w tok as (ra, github))) = Ref ra"
  by (induction as arbitrary: ra github) simp_all

lemma replaceGheAction_stable:
  "replaceGheAction w tok as (ra\<lparr>URL := ''https://github.com''\<rparr>, github\<lparr>Token := tok\<rparr>) =
     (ra\<lparr>URL := ''https://github.com''\<rparr>, github\<lparr>Token := tok\<rparr>)"
  by (induction as) simp_all

lemma replaceGheAction_match:
  "\<exists>a\<in>set as. EqualFold w (Org ra @ ''/'' @ Repo ra) a \<Longrightarrow>
     replaceGheAction w tok as (ra, github) =
       (ra\<lparr>URL := ''https://github.com''\<rparr>, github\<lparr>Token := tok\<rparr>)"
proof (induction as)
  case Nil
  then show ?case by simp
next
  case (Cons a as)
  show ?case
  proof (cases "EqualFold w (Org ra @ ''/'' @ Repo ra) a")
    case True
    then show ?thesis by (simp add: replaceGheAction_stable)
  next
    case False
    with Cons show ?thesis by simp
  qed
qed

lemma replaceGheAction_no_match:
  "\<forall>a\<in>set as. \<not> EqualFold w (Org ra @ ''/'' @ Repo ra) a \<Longrightarrow>
     replaceGheAction w tok as (ra, github) = (ra, github)"
  by (induction as) simp_all

lemma fetchAndRead_events:
  "\<exists>r sar3 evs'. fetchAndRead w sar ra0 github0 =
      (r, sar3,
       cloneEvents w (sar\<lparr>remoteAction := Some (fst (replaceGheAction w
           (ReplaceGheActionTokenWithGithubCom (Config (RunContext sar)))
           (ReplaceGheActionWithGithubCom (Config (RunContext sar))) (ra0, github0)))\<rparr>)
         (fst (replaceGheAction w
           (ReplaceGheActionTokenWithGithubCom (Config (RunContext sar)))
           (ReplaceGheActionWithGithubCom (Config (RunContext sar))) (ra0, github0))) @ evs') \<and>
      (\<forall>e\<in>set evs'. \<forall>i. e \<noteq> Clone i) \<and>
      Step sar3 = Step sar \<and> RunContext sar3 = RunContext sar \<and>
      remoteAction sar3 = Some (fst (replaceGheAction w
           (ReplaceGheActionTokenWithGithubCom (Config (RunContext sar)))
           (ReplaceGheActionWithGithubCom (Config (RunContext sar))) (ra0, github0)))"
proof -
  let ?ra = "fst (replaceGheAction w
           (ReplaceGheActionTokenWithGithubCom (Config (RunContext sar)))
           (ReplaceGheActionWithGithubCom (Config (RunContext sar))) (ra0, github0))"
  let ?sar2 = "sar\<lparr>remoteAction := Some ?ra\<rparr>"
  let ?read = "readActionExecutor (inDir (cloneInput w ?sar2 ?ra)) (Path ?ra) :: 'a Executor"
  have rd: "\<exists>r sar3. ?read ?sar2 = (r, sar3, [ReadAction (inDir (cloneInput w ?sar2 ?ra)) (Path ?ra)]) \<and>
      Step sar3 = Step sar \<and> RunContext sar3 = RunContext sar \<and> remoteAction sar3 = Some ?ra"
    by (simp add: readActionExecutor_def split: prod.splits)
  then obtain r sar3 where rd': "?read ?sar2 = (r, sar3, [ReadAction (inDir (cloneInput w ?sar2 ?ra)) (Path ?ra)])"
    and fr: "Step sar3 = Step sar" "RunContext sar3 = RunContext sar" "remoteAction sar3 = Some ?ra"
    by blast
  have p0: "NewPipelineExecutor [None, Some ?read] ?sar2 =
      (r, sar3, [ReadAction (inDir (cloneInput w ?sar2 ?ra)) (Path ?ra)])"
    using rd' by (cases r) simp_all
  show ?thesis
  proof (cases "gitClone w (cloneInput w ?sar2 ?ra)")
    case None
    then have "fetchAndRead w sar ra0 github0 =
        (r, sar3, cloneEvents w ?sar2 ?ra @ [ReadAction (inDir (cloneInput w ?sar2 ?ra)) (Path ?ra)])"
      using p0 by (simp add: fetchAndRead_def Let_def)
    with fr show ?thesis by simp
  next
    case (Some err)
    show ?thesis
    proof (cases "cloneFailure (Uses (Step ?sar2)) (Ref ?ra) err :: error + 'a Executor option")
      case (Inl e)
      with Some have "fetchAndRead w sar ra0 github0 = (Some e, ?sar2, cloneEvents w ?sar2 ?ra @ [])"
        by (simp add: fetchAndRead_def Let_def)
      then show ?thesis by simp
    next
      case (Inr ntErr)
      then obtain msg where err: "err = ErrForceNeeded msg"
        and nt: "ntErr = Some (NewInfoExecutor
          (''Non-terminating error while running '' @ [CHR 0x27] @ ''git clone'' @ [CHR 0x27] @
           '': '' @ msg))"
        by (cases err) simp_all
      have "NewPipelineExecutor [ntErr, Some ?read] ?sar2 =
          (r, sar3, [Infof (''Non-terminating error while running '' @ [CHR 0x27] @ ''git clone'' @ [CHR 0x27] @
           '': '' @ msg), ReadAction (inDir (cloneInput w ?sar2 ?ra)) (Path ?ra)])"
        using rd' nt by (cases r) (simp_all add: NewInfoExecutor_def)
      with Some Inr have "fetchAndRead w sar ra0 github0 =
          (r, sar3, cloneEvents w ?sar2 ?ra @
            [Infof (''Non-terminating error while running '' @ [CHR 0x27] @ ''git clone'' @ [CHR 0x27] @
           '': '' @ msg), ReadAction (inDir (cloneInput w ?sar2 ?ra)) (Path ?ra)])"
        by (simp add: fetchAndRead_def Let_def)
      with fr show ?thesis by simp
    qed
  qed
qed

lemma prepareActionExecutor_fetch:
  assumes "remoteAction sar = None \<or> action sar = None"
    and "remoteAction (resolveUses w sar) = Some ra0"
    and "\<not> skipsLocalCheckout w (resolveUses w sar) ra0"
  shows "prepareActionExecutor w sar =
     (case fetchAndRead w (resolveUses w sar) ra0 (getGithubContext w (resolveUses w sar)) of
        (r, sar3, evs) \<Rightarrow> (r, sar3, Interpolated (Uses (Step (resolveUses w sar))) # evs))"
proof -
  have "\<not> (IsCheckout ra0 \<and>
      isLocalCheckout w (getGithubContext w (resolveUses w sar)) (Step (resolveUses w sar)) \<and>
      \<not> NoSkipCheckout (Config (RunContext (resolveUses w sar))))"
    using assms(3) unfolding skipsLocalCheckout_def IsCheckout_def by simp
  moreover have "\<not> (remoteAction sar \<noteq> None \<and> action sar \<noteq> None)"
    using assms(1) by auto
  ultimately show ?thesis
    using assms(2) unfolding prepareActionExecutor_def Let_def by (simp only: if_False option.case)
qed

lemma readActionExecutor_eq:
  "readActionExecutor d p sar =
     (snd (readAction sar (Step sar) d p), sar\<lparr>action := fst (readAction sar (Step sar) d p)\<rparr>,
      [ReadAction d p])"
  by (simp add: readActionExecutor_def split: prod.splits)

lemma pipeline_read:
  "NewPipelineExecutor [None, Some (readActionExecutor d p)] sar = readActionExecutor d p sar"
  by (cases "snd (readAction sar (Step sar) d p)") (simp_all add: readActionExecutor_eq)

lemma pipeline_info_read:
  "NewPipelineExecutor [Some (NewInfoExecutor msg), Some (readActionExecutor d p)] sar =
     (snd (readAction sar (Step sar) d p), sar\<lparr>action := fst (readAction sar (Step sar) d p)\<rparr>,
      [Infof msg, ReadAction d p])"
  by (cases "snd (readAction sar (Step sar) d p)")
     (simp_all add: readActionExecutor_eq NewInfoExecutor_def)

lemma prepareActionExecutor_parse_failure:
  assumes "remoteAction sar = None \<or> action sar = None"
    and "remoteAction (resolveUses w sar) = None"
  shows "prepareActionExecutor w sar =
     (Some (Errorf (''Expected format {org}/{repo}[/path]@ref. Actual '' @ [CHR 0x27] @
          Uses (Step (resolveUses w sar)) @ [CHR 0x27] @
          '' Input string was not in a correct format'')),
      resolveUses w sar, [Interpolated (Uses (Step (resolveUses w sar)))])"
proof -
  have "\<not> (remoteAction sar \<noteq> None \<and> action sar \<noteq> None)"
    using assms(1) by auto
  then show ?thesis
    using assms(2) unfolding prepareActionExecutor_def Let_def by (simp only: if_False option.case)
qed

lemma prepareActionExecutor_skip:
  assumes "remoteAction sar = None \<or> action sar = None"
    and "remoteAction (resolveUses w sar) = Some ra0"
    and "skipsLocalCheckout w (resolveUses w sar) ra0"
  shows "prepareActionExecutor w sar =
     (None, resolveUses w sar,
      [Interpolated (Uses (Step (resolveUses w sar))),
       Debugf ''Skipping local actions/checkout because workdir was already copied''])"
proof -
  have "IsCheckout ra0 \<and>
      isLocalCheckout w (getGithubContext w (resolveUses w sar)) (Step (resolveUses w sar)) \<and>
      \<not> NoSkipCheckout (Config (RunContext (resolveUses w sar)))"
    using assms(3) unfolding skipsLocalCheckout_def IsCheckout_def by simp
  moreover have "\<not> (remoteAction sar \<noteq> None \<and> action sar \<noteq> None)"
    using assms(1) by auto
  ultimately show ?thesis
    using assms(2) unfolding prepareActionExecutor_def Let_def
    by (simp only: if_False if_True option.case simp_thms)
qed

section \<open>The token of the clone\<close>

lemma cloneInput_token:
  "inToken (cloneInput w sar ra) =
     (if HasPrefix (CloneURL ra (DefaultActionInstance (Config (RunContext sar))))
           (Getenv w ''GITEA_INSTANCE_URL'')
      then Getenv w ''GITEA_RUNNER_TOKEN'' else [])"
  by (simp add: cloneInput_def isActionOnGiteaInstance_def Let_def)

text \<open>
  C1: the code decides by a string prefix, not by the host. With the instance URL
  https://gitea.example.com and the token \<open>secret\<close> in the environment, the step that uses
  https://gitea.example.com.evil.org/org/repo@v1 is cloned from the host
  gitea.example.com.evil.org, which is not the host gitea.example.com of the instance,
  and the clone carries the token.
\<close>

theorem token_attached_to_other_host:
  "Getenv exampleWorld ''GITEA_INSTANCE_URL'' = ''https://gitea.example.com'' \<and>
   Getenv exampleWorld ''GITEA_RUNNER_TOKEN'' = ''secret'' \<and>
   snd (snd (prepareActionExecutor exampleWorld
     (exampleStep ''https://gitea.example.com.evil.org/org/repo@v1''))) =
     [Interpolated ''https://gitea.example.com.evil.org/org/repo@v1'',
      Debugf ''Adding GITEA_RUNNER_TOKEN as Token'',
      Clone \<lparr>inURL = ''https://gitea.example.com.evil.org/org/repo'', inRef = ''v1'',
             inDir = ''/cache/https---gitea.example.com.evil.org-org-repo@v1'',
             inToken = ''secret''\<rparr>,
      ReadAction ''/cache/https---gitea.example.com.evil.org-org-repo@v1'' []] \<and>
   hostOf ''https://gitea.example.com.evil.org/org/repo'' = ''gitea.example.com.evil.org'' \<and>
   hostOf ''https://gitea.example.com'' = ''gitea.example.com'' \<and>
   ''gitea.example.com.evil.org'' \<noteq> ''gitea.example.com''"
proof -
  let ?uses = "''https://gitea.example.com.evil.org/org/repo@v1''"
  let ?ra = "\<lparr>URL = ''https://gitea.example.com.evil.org'', Org = ''org'', Repo = ''repo'',
              Path = [], Ref = ''v1''\<rparr>"
  let ?sar = "exampleStep ?uses"
  let ?dir = "''/cache/https---gitea.example.com.evil.org-org-repo@v1''"
  let ?i = "\<lparr>inURL = ''https://gitea.example.com.evil.org/org/repo'', inRef = ''v1'',
             inDir = ?dir, inToken = ''secret''\<rparr>"
  have sp: "SplitN ''gitea.example.com.evil.org/org/repo@v1'' 2 =
      [''gitea.example.com.evil.org'', ''org/repo@v1'']"
    by (simp add: numeral_2_eq_2)
  have pa: "parseAction ''org/repo@v1'' =
      Some \<lparr>URL = [], Org = ''org'', Repo = ''repo'', Path = [], Ref = ''v1''\<rparr>"
    by (simp add: parseAction_def parseRef_def notSlashAt_def notAt_def)
  have ns: "\<not> hasAServicePrefix ?uses"
    by (simp add: hasAServicePrefix_def isJuegoInternalServerPrefix_def HasPrefix_def)
  have p: "newRemoteAction ?uses = Some ?ra"
    using sp pa ns
    by (simp add: newRemoteAction_def newRemoteActionWith_def HasPrefix_def TrimPrefix_def)
  have h1: "remoteAction ?sar = None \<or> action ?sar = None"
    by (simp add: exampleStep_def)
  have r: "resolveUses exampleWorld ?sar = ?sar\<lparr>remoteAction := Some ?ra\<rparr>"
    using p by (simp add: resolveUses_def exampleWorld_def exampleStep_def)
  have h2: "remoteAction (resolveUses exampleWorld ?sar) = Some ?ra"
    by (simp add: r)
  have h3: "\<not> skipsLocalCheckout exampleWorld (resolveUses exampleWorld ?sar) ?ra"
    by (simp add: skipsLocalCheckout_def)
  have ev: "cloneInput exampleWorld (?sar\<lparr>remoteAction := Some ?ra\<rparr>) ?ra = ?i"
    "cloneEvents exampleWorld (?sar\<lparr>remoteAction := Some ?ra\<rparr>) ?ra =
       [Debugf ''Adding GITEA_RUNNER_TOKEN as Token'', Clone ?i]"
    by (simp_all add: cloneInput_def cloneEvents_def isActionOnGiteaInstance_def CloneURL_def
        HasPrefix_def exampleWorld_def exampleStep_def exampleRunContext_def exampleConfig_def
        safeFilename_def Replace_def safeFilename_oldnew_def)
  have rp: "ReplaceGheActionWithGithubCom (Config (RunContext ?sar)) = []"
    by (simp add: exampleStep_def exampleRunContext_def exampleConfig_def)
  have u: "Uses (Step ?sar) = ?uses"
    by (simp add: exampleStep_def)
  have g: "gitClone exampleWorld ?i = None"
    by (simp add: exampleWorld_def)
  have f: "snd (snd (fetchAndRead exampleWorld (?sar\<lparr>remoteAction := Some ?ra\<rparr>) ?ra
      (getGithubContext exampleWorld (?sar\<lparr>remoteAction := Some ?ra\<rparr>)))) =
      [Debugf ''Adding GITEA_RUNNER_TOKEN as Token'', Clone ?i, ReadAction ?dir []]"
    by (simp add: fetchAndRead_def Let_def rp ev g pipeline_read readActionExecutor_eq
        del: NewPipelineExecutor.simps)
  have 1: "snd (snd (prepareActionExecutor exampleWorld ?sar)) =
     [Interpolated ?uses, Debugf ''Adding GITEA_RUNNER_TOKEN as Token'', Clone ?i,
      ReadAction ?dir []]"
    using prepareActionExecutor_fetch [OF h1 h2 h3] f
    by (simp add: r u split: prod.splits)
  have 2: "hostOf ''https://gitea.example.com.evil.org/org/repo'' = ''gitea.example.com.evil.org''"
    "hostOf ''https://gitea.example.com'' = ''gitea.example.com''"
    by (simp_all add: hostOf_def HasPrefix_def TrimPrefix_def)
  have 3: "Getenv exampleWorld ''GITEA_INSTANCE_URL'' = ''https://gitea.example.com''"
    "Getenv exampleWorld ''GITEA_RUNNER_TOKEN'' = ''secret''"
    by (simp_all add: exampleWorld_def)
  from 1 2 3 show ?thesis by simp
qed

section \<open>Failures of the clone\<close>

text \<open>
  C4: when the step is not yet resolved, its reference parses and the checkout skip does
  not apply, the executor clones, and an error of the clone is treated in one of three
  ways. For the error of an abbreviated commit id the executor fails with a message that
  names the full commit SHA to use, and reads no action definition. For go-git's error
  that a force would be needed it logs the error at the informational level, goes on to
  read the action definition from the cache directory, and returns what the read
  returns. Any other error it returns as it got it, and reads nothing.
\<close>

theorem clone_failures:
  assumes "remoteAction sar = None \<or> action sar = None"
    and "remoteAction (resolveUses w sar) = Some ra0"
    and "\<not> skipsLocalCheckout w (resolveUses w sar) ra0"
    and "ra = fst (replaceGheAction w
                 (ReplaceGheActionTokenWithGithubCom (Config (RunContext sar)))
                 (ReplaceGheActionWithGithubCom (Config (RunContext sar)))
                 (ra0, getGithubContext w (resolveUses w sar)))"
    and "sar2 = (resolveUses w sar)\<lparr>remoteAction := Some ra\<rparr>"
    and "evs = Interpolated (Uses (Step sar2)) # cloneEvents w sar2 ra"
    and "dir = inDir (cloneInput w sar2 ra)"
  shows "(gitClone w (cloneInput w sar2 ra) = Some (ErrShortRef commit) \<longrightarrow>
       prepareActionExecutor w sar =
         (Some (Errorf (''Unable to resolve action '' @ [CHR 0x60] @ Uses (Step sar2) @ [CHR 0x60] @
            '', the provided ref '' @ [CHR 0x60] @ Ref ra @ [CHR 0x60] @
            '' is the shortened version of a commit SHA, which is not supported. '' @
            ''Please use the full commit SHA '' @ [CHR 0x60] @ commit @ [CHR 0x60] @ '' instead'')),
          sar2, evs)) \<and>
    (gitClone w (cloneInput w sar2 ra) = Some (ErrForceNeeded msg) \<longrightarrow>
       prepareActionExecutor w sar =
         (snd (readAction sar2 (Step sar2) dir (Path ra)),
          sar2\<lparr>action := fst (readAction sar2 (Step sar2) dir (Path ra))\<rparr>,
          evs @ [Infof (''Non-terminating error while running '' @ [CHR 0x27] @ ''git clone'' @
                   [CHR 0x27] @ '': '' @ msg),
                 ReadAction dir (Path ra)])) \<and>
    (gitClone w (cloneInput w sar2 ra) = Some err \<and>
       (\<forall>c. err \<noteq> ErrShortRef c) \<and> (\<forall>m. err \<noteq> ErrForceNeeded m) \<longrightarrow>
       prepareActionExecutor w sar = (Some err, sar2, evs))"
proof -
  have cfg: "Config (RunContext (resolveUses w sar)) = Config (RunContext sar)"
    by (simp add: resolveUses_def Let_def)
  have st: "Step sar2 = Step (resolveUses w sar)"
    using assms(5) by simp
  note p = prepareActionExecutor_fetch [OF assms(1-3), folded st]
  have f: "fetchAndRead w (resolveUses w sar) ra0 (getGithubContext w (resolveUses w sar)) =
      (case gitClone w (cloneInput w sar2 ra) of
           None \<Rightarrow>
             (case NewPipelineExecutor [None, Some (readActionExecutor dir (Path ra))] sar2 of
                (r, sar3, evs') \<Rightarrow> (r, sar3, cloneEvents w sar2 ra @ evs'))
         | Some err \<Rightarrow>
             (case cloneFailure (Uses (Step sar2)) (Ref ra) err of
                Inl e \<Rightarrow> (Some e, sar2, cloneEvents w sar2 ra)
              | Inr ntErr \<Rightarrow>
                  (case NewPipelineExecutor [ntErr, Some (readActionExecutor dir (Path ra))] sar2 of
                     (r, sar3, evs') \<Rightarrow> (r, sar3, cloneEvents w sar2 ra @ evs'))))"
    unfolding fetchAndRead_def Let_def cfg assms(4,5,7) ..
  have 1: "gitClone w (cloneInput w sar2 ra) = Some (ErrShortRef commit) \<Longrightarrow>
       prepareActionExecutor w sar =
         (Some (Errorf (''Unable to resolve action '' @ [CHR 0x60] @ Uses (Step sar2) @ [CHR 0x60] @
            '', the provided ref '' @ [CHR 0x60] @ Ref ra @ [CHR 0x60] @
            '' is the shortened version of a commit SHA, which is not supported. '' @
            ''Please use the full commit SHA '' @ [CHR 0x60] @ commit @ [CHR 0x60] @ '' instead'')),
          sar2, evs)"
    unfolding p f assms(6) by simp
  have 2: "gitClone w (cloneInput w sar2 ra) = Some (ErrForceNeeded msg) \<Longrightarrow>
       prepareActionExecutor w sar =
         (snd (readAction sar2 (Step sar2) dir (Path ra)),
          sar2\<lparr>action := fst (readAction sar2 (Step sar2) dir (Path ra))\<rparr>,
          evs @ [Infof (''Non-terminating error while running '' @ [CHR 0x27] @ ''git clone'' @
                   [CHR 0x27] @ '': '' @ msg),
                 ReadAction dir (Path ra)])"
    unfolding p f assms(6) by (simp add: pipeline_info_read del: NewPipelineExecutor.simps)
  have 3: "gitClone w (cloneInput w sar2 ra) = Some err \<Longrightarrow>
       (\<forall>c. err \<noteq> ErrShortRef c) \<Longrightarrow> (\<forall>m. err \<noteq> ErrForceNeeded m) \<Longrightarrow>
       prepareActionExecutor w sar = (Some err, sar2, evs)"
    unfolding p f assms(6) by (cases err) simp_all
  from 1 2 3 show ?thesis by blast
qed

theorem clone_failures_witness:
  "prepareActionExecutor (exampleWorld\<lparr>gitClone := (\<lambda>_. Some (ErrShortRef ''abc1234def''))\<rparr>)
     (exampleStep ''org/repo@abc1234'') =
     (Some (Errorf (''Unable to resolve action '' @ [CHR 0x60] @ ''org/repo@abc1234'' @ [CHR 0x60] @
        '', the provided ref '' @ [CHR 0x60] @ ''abc1234'' @ [CHR 0x60] @
        '' is the shortened version of a commit SHA, which is not supported. '' @
        ''Please use the full commit SHA '' @ [CHR 0x60] @ ''abc1234def'' @ [CHR 0x60] @ '' instead'')),
      (exampleStep ''org/repo@abc1234'')\<lparr>remoteAction :=
         Some \<lparr>URL = [], Org = ''org'', Repo = ''repo'', Path = [], Ref = ''abc1234''\<rparr>\<rparr>,
      [Interpolated ''org/repo@abc1234'',
       Clone \<lparr>inURL = ''https://github.com/org/repo'', inRef = ''abc1234'',
              inDir = ''/cache/org-repo@abc1234'', inToken = []\<rparr>]) \<and>
   prepareActionExecutor (exampleWorld\<lparr>gitClone := (\<lambda>_. Some (ErrForceNeeded ''some refs were not updated''))\<rparr>)
     (exampleStep ''org/repo@abc1234'') =
     (None,
      (exampleStep ''org/repo@abc1234'')\<lparr>
         action := Some \<lparr>Runs_PreIf = ''always()'', Runs_PostIf = ''always()''\<rparr>,
         remoteAction :=
           Some \<lparr>URL = [], Org = ''org'', Repo = ''repo'', Path = [], Ref = ''abc1234''\<rparr>\<rparr>,
      [Interpolated ''org/repo@abc1234'',
       Clone \<lparr>inURL = ''https://github.com/org/repo'', inRef = ''abc1234'',
              inDir = ''/cache/org-repo@abc1234'', inToken = []\<rparr>,
       Infof (''Non-terminating error while running '' @ [CHR 0x27] @ ''git clone'' @ [CHR 0x27] @
              '': some refs were not updated''),
       ReadAction ''/cache/org-repo@abc1234'' []]) \<and>
   prepareActionExecutor (exampleWorld\<lparr>gitClone := (\<lambda>_. Some (ErrOther ''connection refused''))\<rparr>)
     (exampleStep ''org/repo@abc1234'') =
     (Some (ErrOther ''connection refused''),
      (exampleStep ''org/repo@abc1234'')\<lparr>remoteAction :=
         Some \<lparr>URL = [], Org = ''org'', Repo = ''repo'', Path = [], Ref = ''abc1234''\<rparr>\<rparr>,
      [Interpolated ''org/repo@abc1234'',
       Clone \<lparr>inURL = ''https://github.com/org/repo'', inRef = ''abc1234'',
              inDir = ''/cache/org-repo@abc1234'', inToken = []\<rparr>])"
proof -
  let ?sar = "exampleStep ''org/repo@abc1234''"
  let ?ra = "\<lparr>URL = [], Org = ''org'', Repo = ''repo'', Path = [], Ref = ''abc1234''\<rparr>"
  have p: "newRemoteAction ''org/repo@abc1234'' = Some ?ra"
    by (simp add: newRemoteAction_def HasPrefix_def parseAction_def parseRef_def notSlashAt_def
        notAt_def)
  have h1: "remoteAction ?sar = None \<or> action ?sar = None"
    by (simp add: exampleStep_def)
  have r: "resolveUses (exampleWorld\<lparr>gitClone := g\<rparr>) ?sar = ?sar\<lparr>remoteAction := Some ?ra\<rparr>" for g
    using p by (simp add: resolveUses_def exampleWorld_def exampleStep_def)
  have h2: "remoteAction (resolveUses (exampleWorld\<lparr>gitClone := g\<rparr>) ?sar) = Some ?ra" for g
    by (simp add: r)
  have h3: "\<not> skipsLocalCheckout (exampleWorld\<lparr>gitClone := g\<rparr>)
      (resolveUses (exampleWorld\<lparr>gitClone := g\<rparr>) ?sar) ?ra" for g
    by (simp add: skipsLocalCheckout_def)
  have ev: "cloneInput (exampleWorld\<lparr>gitClone := g\<rparr>) (?sar\<lparr>remoteAction := Some ?ra\<rparr>) ?ra =
      \<lparr>inURL = ''https://github.com/org/repo'', inRef = ''abc1234'',
       inDir = ''/cache/org-repo@abc1234'', inToken = []\<rparr> \<and>
      cloneEvents (exampleWorld\<lparr>gitClone := g\<rparr>) (?sar\<lparr>remoteAction := Some ?ra\<rparr>) ?ra =
      [Clone \<lparr>inURL = ''https://github.com/org/repo'', inRef = ''abc1234'',
              inDir = ''/cache/org-repo@abc1234'', inToken = []\<rparr>]" for g
    by (simp add: cloneInput_def cloneEvents_def isActionOnGiteaInstance_def CloneURL_def
        HasPrefix_def exampleWorld_def exampleStep_def exampleRunContext_def exampleConfig_def
        safeFilename_def Replace_def safeFilename_oldnew_def)
  have rp: "ReplaceGheActionWithGithubCom (Config (RunContext ?sar)) = []"
    by (simp add: exampleStep_def exampleRunContext_def exampleConfig_def)
  have u: "Uses (Step ?sar) = ''org/repo@abc1234''"
    by (simp add: exampleStep_def)
  have ra: "readAction ?sar = (\<lambda>_ _ _. (Some \<lparr>Runs_PreIf = ''always()'', Runs_PostIf = ''always()''\<rparr>, None))"
    by (simp add: exampleStep_def)
  from clone_failures [OF h1 h2 h3 refl refl refl refl,
      of "\<lambda>_. Some (ErrShortRef ''abc1234def'')" "''abc1234def''"]
  have 1: "prepareActionExecutor (exampleWorld\<lparr>gitClone := (\<lambda>_. Some (ErrShortRef ''abc1234def''))\<rparr>) ?sar =
     (Some (Errorf (''Unable to resolve action '' @ [CHR 0x60] @ ''org/repo@abc1234'' @ [CHR 0x60] @
        '', the provided ref '' @ [CHR 0x60] @ ''abc1234'' @ [CHR 0x60] @
        '' is the shortened version of a commit SHA, which is not supported. '' @
        ''Please use the full commit SHA '' @ [CHR 0x60] @ ''abc1234def'' @ [CHR 0x60] @ '' instead'')),
      ?sar\<lparr>remoteAction := Some ?ra\<rparr>,
      [Interpolated ''org/repo@abc1234'',
       Clone \<lparr>inURL = ''https://github.com/org/repo'', inRef = ''abc1234'',
              inDir = ''/cache/org-repo@abc1234'', inToken = []\<rparr>])"
    by (simp add: rp r ev u)
  from clone_failures [OF h1 h2 h3 refl refl refl refl,
      of "\<lambda>_. Some (ErrForceNeeded ''some refs were not updated'')" _ "''some refs were not updated''"]
  have 2: "prepareActionExecutor (exampleWorld\<lparr>gitClone := (\<lambda>_. Some (ErrForceNeeded ''some refs were not updated''))\<rparr>) ?sar =
     (None,
      ?sar\<lparr>action := Some \<lparr>Runs_PreIf = ''always()'', Runs_PostIf = ''always()''\<rparr>,
            remoteAction := Some ?ra\<rparr>,
      [Interpolated ''org/repo@abc1234'',
       Clone \<lparr>inURL = ''https://github.com/org/repo'', inRef = ''abc1234'',
              inDir = ''/cache/org-repo@abc1234'', inToken = []\<rparr>,
       Infof (''Non-terminating error while running '' @ [CHR 0x27] @ ''git clone'' @ [CHR 0x27] @
              '': some refs were not updated''),
       ReadAction ''/cache/org-repo@abc1234'' []])"
    by (simp add: rp r ev u ra)
  from clone_failures [OF h1 h2 h3 refl refl refl refl,
      of "\<lambda>_. Some (ErrOther ''connection refused'')" _ _ "ErrOther ''connection refused''"]
  have 3: "prepareActionExecutor (exampleWorld\<lparr>gitClone := (\<lambda>_. Some (ErrOther ''connection refused''))\<rparr>) ?sar =
     (Some (ErrOther ''connection refused''), ?sar\<lparr>remoteAction := Some ?ra\<rparr>,
      [Interpolated ''org/repo@abc1234'',
       Clone \<lparr>inURL = ''https://github.com/org/repo'', inRef = ''abc1234'',
              inDir = ''/cache/org-repo@abc1234'', inToken = []\<rparr>])"
    by (simp add: rp r ev u)
  from 1 2 3 show ?thesis by (intro conjI)
qed

section \<open>Actions taken from github.com instead\<close>

text \<open>
  C10: when the org/repo of the parsed reference folds equal to some entry of the
  configured list, the loop leaves the reference with the base URL https://github.com
  and the github context with the configured replacement token, every other field of
  both as before; when it folds equal to no entry, the loop changes nothing. The step
  then holds the reference that the loop left, and the one clone of the fetch is made
  with the input computed from that reference, so that after a match it goes to
  https://github.com/org/repo.
\<close>

theorem replace_with_github_com:
  assumes "tok = ReplaceGheActionTokenWithGithubCom (Config (RunContext sar))"
    and "as = ReplaceGheActionWithGithubCom (Config (RunContext sar))"
    and "res = replaceGheAction w tok as (ra, github)"
  shows "((\<exists>a\<in>set as. EqualFold w (Org ra @ ''/'' @ Repo ra) a) \<longrightarrow>
       res = (ra\<lparr>URL := ''https://github.com''\<rparr>, github\<lparr>Token := tok\<rparr>) \<and>
       inURL (cloneInput w (sar\<lparr>remoteAction := Some (fst res)\<rparr>) (fst res)) =
         ''https://github.com/'' @ Org ra @ ''/'' @ Repo ra) \<and>
    ((\<forall>a\<in>set as. \<not> EqualFold w (Org ra @ ''/'' @ Repo ra) a) \<longrightarrow> res = (ra, github)) \<and>
    (\<exists>r sar3 evs'.
       fetchAndRead w sar ra github =
         (r, sar3, cloneEvents w (sar\<lparr>remoteAction := Some (fst res)\<rparr>) (fst res) @ evs') \<and>
       (\<forall>e\<in>set evs'. \<forall>i. e \<noteq> Clone i) \<and>
       remoteAction sar3 = Some (fst res))"
proof -
  have m: "(\<exists>a\<in>set as. EqualFold w (Org ra @ ''/'' @ Repo ra) a) \<Longrightarrow>
      res = (ra\<lparr>URL := ''https://github.com''\<rparr>, github\<lparr>Token := tok\<rparr>)"
    unfolding assms(3) by (rule replaceGheAction_match)
  have u: "res = (ra\<lparr>URL := ''https://github.com''\<rparr>, github\<lparr>Token := tok\<rparr>) \<Longrightarrow>
      inURL (cloneInput w (sar\<lparr>remoteAction := Some (fst res)\<rparr>) (fst res)) =
         ''https://github.com/'' @ Org ra @ ''/'' @ Repo ra"
    by (simp add: cloneInput_def CloneURL_def Let_def)
  have n: "(\<forall>a\<in>set as. \<not> EqualFold w (Org ra @ ''/'' @ Repo ra) a) \<Longrightarrow> res = (ra, github)"
    unfolding assms(3) by (rule replaceGheAction_no_match)
  have f: "\<exists>r sar3 evs'.
       fetchAndRead w sar ra github =
         (r, sar3, cloneEvents w (sar\<lparr>remoteAction := Some (fst res)\<rparr>) (fst res) @ evs') \<and>
       (\<forall>e\<in>set evs'. \<forall>i. e \<noteq> Clone i) \<and>
       remoteAction sar3 = Some (fst res)"
    using fetchAndRead_events [of w sar ra github] unfolding assms by blast
  from m u n f show ?thesis by blast
qed

theorem replace_with_github_com_witness:
  "EqualFold exampleWorld (''Actions'' @ ''/'' @ ''Checkout'') ''actions/checkout'' \<and>
   replaceGheAction exampleWorld ''ghp'' [''other/repo'', ''actions/checkout'']
     (\<lparr>URL = ''https://ghe.example.com'', Org = ''Actions'', Repo = ''Checkout'', Path = [], Ref = ''v4''\<rparr>,
      \<lparr>Token = ''run-token'', ActionRepository = [], ActionRef = []\<rparr>) =
     (\<lparr>URL = ''https://github.com'', Org = ''Actions'', Repo = ''Checkout'', Path = [], Ref = ''v4''\<rparr>,
      \<lparr>Token = ''ghp'', ActionRepository = [], ActionRef = []\<rparr>) \<and>
   \<not> EqualFold exampleWorld (''org'' @ ''/'' @ ''repo'') ''other/repo'' \<and>
   \<not> EqualFold exampleWorld (''org'' @ ''/'' @ ''repo'') ''actions/checkout'' \<and>
   replaceGheAction exampleWorld ''ghp'' [''other/repo'', ''actions/checkout'']
     (\<lparr>URL = ''https://ghe.example.com'', Org = ''org'', Repo = ''repo'', Path = [], Ref = ''v1''\<rparr>,
      \<lparr>Token = ''run-token'', ActionRepository = [], ActionRef = []\<rparr>) =
     (\<lparr>URL = ''https://ghe.example.com'', Org = ''org'', Repo = ''repo'', Path = [], Ref = ''v1''\<rparr>,
      \<lparr>Token = ''run-token'', ActionRepository = [], ActionRef = []\<rparr>)"
proof -
  let ?cfg = "exampleConfig\<lparr>ReplaceGheActionWithGithubCom := [''other/repo'', ''actions/checkout'']\<rparr>"
  let ?sar = "(exampleStep ''Actions/Checkout@v4'')\<lparr>RunContext := exampleRunContext\<lparr>Config := ?cfg\<rparr>\<rparr>"
  let ?gh = "\<lparr>Token = ''run-token'', ActionRepository = [], ActionRef = []\<rparr>"
  let ?ra1 = "\<lparr>URL = ''https://ghe.example.com'', Org = ''Actions'', Repo = ''Checkout'', Path = [], Ref = ''v4''\<rparr>"
  let ?ra2 = "\<lparr>URL = ''https://ghe.example.com'', Org = ''org'', Repo = ''repo'', Path = [], Ref = ''v1''\<rparr>"
  have lo: "map toLowerASCII ''Actions/Checkout'' = ''actions/checkout''"
    by (simp add: toLowerASCII_def)
  have lo1: "map toLowerASCII ''actions/checkout'' = ''actions/checkout''"
    "map toLowerASCII ''other/repo'' = ''other/repo''"
    "map toLowerASCII ''org/repo'' = ''org/repo''"
    by (simp_all add: toLowerASCII_def)
  have e1: "EqualFold exampleWorld (''Actions'' @ ''/'' @ ''Checkout'') ''actions/checkout''"
    using lo lo1 by (simp add: exampleWorld_def EqualFoldASCII_def)
  have e2: "\<not> EqualFold exampleWorld (''org'' @ ''/'' @ ''repo'') ''other/repo''"
    "\<not> EqualFold exampleWorld (''org'' @ ''/'' @ ''repo'') ''actions/checkout''"
    using lo1 by (simp_all add: exampleWorld_def EqualFoldASCII_def)
  have t: "''ghp'' = ReplaceGheActionTokenWithGithubCom (Config (RunContext ?sar))"
    by (simp add: exampleConfig_def)
  have l: "[''other/repo'', ''actions/checkout''] = ReplaceGheActionWithGithubCom (Config (RunContext ?sar))"
    by simp
  from replace_with_github_com [OF t l refl, of exampleWorld ?ra1 ?gh] e1
  have 1: "replaceGheAction exampleWorld ''ghp'' [''other/repo'', ''actions/checkout''] (?ra1, ?gh) =
      (?ra1\<lparr>URL := ''https://github.com''\<rparr>, ?gh\<lparr>Token := ''ghp''\<rparr>)"
    by simp
  from replace_with_github_com [OF t l refl, of exampleWorld ?ra2 ?gh] e2
  have 2: "replaceGheAction exampleWorld ''ghp'' [''other/repo'', ''actions/checkout''] (?ra2, ?gh) =
      (?ra2, ?gh)"
    by simp
  from e1 1 e2 2 show ?thesis by simp
qed

section \<open>The cache directory\<close>

lemma safeFilename_map:
  "safeFilename s =
     map (\<lambda>c. if c \<in> {CHR ''<'', CHR ''>'', CHR '':'', CHR 0x22, CHR ''/'', CHR 0x5C,
                         CHR ''|'', CHR ''?'', CHR ''*''} then CHR ''-'' else c) s"
  unfolding safeFilename_def Replace_def safeFilename_oldnew_def
  by (rule map_cong [OF refl]) simp

lemma cloneEvents_Clone:
  assumes "Clone i \<in> set (cloneEvents w sar ra)"
  shows "inDir i = ActionCacheDir w (RunContext sar) @ ''/'' @ safeFilename (Uses (Step sar))"
proof -
  from assms have "i = cloneInput w sar ra"
    by (simp add: cloneEvents_def split: if_splits)
  then show ?thesis by (simp add: cloneInput_def Let_def)
qed

lemma prepareActionExecutor_Clone:
  assumes "prepareActionExecutor w sar = (r, sar', evs)" and "Clone i \<in> set evs"
  shows "inDir i = ActionCacheDir w (RunContext sar') @ ''/'' @ safeFilename (Uses (Step sar'))"
proof (cases "remoteAction sar \<noteq> None \<and> action sar \<noteq> None")
  case True
  with assms(1) have "evs = []" by (simp add: prepareActionExecutor_def)
  with assms(2) show ?thesis by simp
next
  case False
  then have un: "remoteAction sar = None \<or> action sar = None" by auto
  let ?sar1 = "resolveUses w sar"
  show ?thesis
  proof (cases "remoteAction ?sar1")
    case None
    from prepareActionExecutor_parse_failure [OF un None] assms(1)
    have "evs = [Interpolated (Uses (Step ?sar1))]"
      by simp
    with assms(2) show ?thesis by simp
  next
    case (Some ra0)
    show ?thesis
    proof (cases "skipsLocalCheckout w ?sar1 ra0")
      case True
      from prepareActionExecutor_skip [OF un Some True] assms(1)
      have "evs = [Interpolated (Uses (Step ?sar1)),
          Debugf ''Skipping local actions/checkout because workdir was already copied'']"
        by simp
      with assms(2) show ?thesis by simp
    next
      case noskip: False
      let ?ra = "fst (replaceGheAction w
           (ReplaceGheActionTokenWithGithubCom (Config (RunContext ?sar1)))
           (ReplaceGheActionWithGithubCom (Config (RunContext ?sar1)))
           (ra0, getGithubContext w ?sar1))"
      let ?sar2 = "?sar1\<lparr>remoteAction := Some ?ra\<rparr>"
      from fetchAndRead_events [of w ?sar1 ra0 "getGithubContext w ?sar1"]
      obtain r0 sar3 evs' where
        f: "fetchAndRead w ?sar1 ra0 (getGithubContext w ?sar1) =
              (r0, sar3, cloneEvents w ?sar2 ?ra @ evs')"
        and nc: "\<forall>e\<in>set evs'. \<forall>i. e \<noteq> Clone i"
        and fr: "Step sar3 = Step ?sar1" "RunContext sar3 = RunContext ?sar1"
        by blast
      from prepareActionExecutor_fetch [OF un Some noskip] f assms(1)
      have e: "sar' = sar3" "evs = Interpolated (Uses (Step ?sar1)) # cloneEvents w ?sar2 ?ra @ evs'"
        by simp_all
      from assms(2) e(2) nc have "Clone i \<in> set (cloneEvents w ?sar2 ?ra)"
        by auto
      from cloneEvents_Clone [OF this] fr e(1) show ?thesis by simp
    qed
  qed
qed

lemma mainStep_RunAction:
  assumes "mainStep w sar = (r, sar', evs)" and "RunAction d ra \<in> set evs"
  shows "d = ActionCacheDir w (RunContext sar) @ ''/'' @ safeFilename (Uses (Step sar)) \<and> sar' = sar"
  using assms
  by (auto simp: mainStep_def Let_def split: option.splits if_splits)

lemma getCompositeRunContext_location:
  assumes "getCompositeRunContext w sar = Inr (crc, sar', evs)"
    and "NewCompositeRunContext loc \<in> set evs"
  shows "\<exists>ra. remoteAction sar = Some ra \<and>
           loc = pathJoin w (ActionCacheDir w (RunContext sar) @ ''/'' @
                   safeFilename (Uses (Step sar))) (Path ra)"
  using assms
  by (auto simp: getCompositeRunContext_def Let_def split: option.splits)

text \<open>
  C7: \<open>safeFilename\<close> replaces each of the nine characters
  \<^verbatim>\<open>< > : " / \ | ? *\<close> by \<open>-\<close> and keeps every other character, so that
  \<open>org/repo@v1\<close> becomes \<open>org-repo@v1\<close>. The directory that the fetch hands to the clone,
  the directory that the main stage runs the action from and the directory that the
  composite run context is located in are all the cache root, a \<open>/\<close> and the
  \<open>safeFilename\<close> of the uses string that the step holds once it is resolved (the string
  that the resolution interpolated and stored back): one path for the three places.
\<close>

theorem cache_dir_of_uses:
  "safeFilename s =
     map (\<lambda>c. if c \<in> {CHR ''<'', CHR ''>'', CHR '':'', CHR 0x22, CHR ''/'', CHR 0x5C,
                         CHR ''|'', CHR ''?'', CHR ''*''} then CHR ''-'' else c) s \<and>
   safeFilename ''org/repo@v1'' = ''org-repo@v1'' \<and>
   (prepareActionExecutor w sar = (r, sar', evs) \<and> Clone i \<in> set evs \<longrightarrow>
      inDir i = ActionCacheDir w (RunContext sar') @ ''/'' @ safeFilename (Uses (Step sar'))) \<and>
   (mainStep w sar' = (r2, sar2, evs2) \<and> RunAction d ra \<in> set evs2 \<longrightarrow>
      d = ActionCacheDir w (RunContext sar') @ ''/'' @ safeFilename (Uses (Step sar'))) \<and>
   (getCompositeRunContext w sar' = Inr (crc, sar3, evs3) \<and>
      NewCompositeRunContext loc \<in> set evs3 \<longrightarrow>
      (\<exists>ra'. remoteAction sar' = Some ra' \<and>
         loc = pathJoin w (ActionCacheDir w (RunContext sar') @ ''/'' @
                 safeFilename (Uses (Step sar'))) (Path ra')))"
proof (intro conjI impI)
  show "safeFilename s =
     map (\<lambda>c. if c \<in> {CHR ''<'', CHR ''>'', CHR '':'', CHR 0x22, CHR ''/'', CHR 0x5C,
                         CHR ''|'', CHR ''?'', CHR ''*''} then CHR ''-'' else c) s"
    by (rule safeFilename_map)
  show "safeFilename ''org/repo@v1'' = ''org-repo@v1''"
    by (simp add: safeFilename_map)
next
  assume "prepareActionExecutor w sar = (r, sar', evs) \<and> Clone i \<in> set evs"
  then show "inDir i = ActionCacheDir w (RunContext sar') @ ''/'' @ safeFilename (Uses (Step sar'))"
    using prepareActionExecutor_Clone [of w sar r sar' evs i] by simp
next
  assume "mainStep w sar' = (r2, sar2, evs2) \<and> RunAction d ra \<in> set evs2"
  then show "d = ActionCacheDir w (RunContext sar') @ ''/'' @ safeFilename (Uses (Step sar'))"
    using mainStep_RunAction [of w sar' r2 sar2 evs2 d ra] by simp
next
  assume "getCompositeRunContext w sar' = Inr (crc, sar3, evs3) \<and>
      NewCompositeRunContext loc \<in> set evs3"
  then show "\<exists>ra'. remoteAction sar' = Some ra' \<and>
         loc = pathJoin w (ActionCacheDir w (RunContext sar') @ ''/'' @
                 safeFilename (Uses (Step sar'))) (Path ra')"
    using getCompositeRunContext_location [of w sar' crc sar3 evs3 loc] by simp
qed

theorem cache_dir_of_uses_witness:
  "prepareActionExecutor exampleWorld (exampleStep ''org/repo@v1'') =
     (None,
      (exampleStep ''org/repo@v1'')\<lparr>
         action := Some \<lparr>Runs_PreIf = ''always()'', Runs_PostIf = ''always()''\<rparr>,
         remoteAction := Some \<lparr>URL = [], Org = ''org'', Repo = ''repo'', Path = [], Ref = ''v1''\<rparr>\<rparr>,
      [Interpolated ''org/repo@v1'',
       Clone \<lparr>inURL = ''https://github.com/org/repo'', inRef = ''v1'',
              inDir = ''/cache/org-repo@v1'', inToken = []\<rparr>,
       ReadAction ''/cache/org-repo@v1'' []]) \<and>
   snd (snd (mainStep exampleWorld
     ((exampleStep ''org/repo@v1'')\<lparr>
         action := Some \<lparr>Runs_PreIf = ''always()'', Runs_PostIf = ''always()''\<rparr>,
         remoteAction := Some \<lparr>URL = [], Org = ''org'', Repo = ''repo'', Path = [], Ref = ''v1''\<rparr>\<rparr>))) =
     [RunAction ''/cache/org-repo@v1''
        \<lparr>URL = [], Org = ''org'', Repo = ''repo'', Path = [], Ref = ''v1''\<rparr>] \<and>
   (case getCompositeRunContext exampleWorld
     ((exampleStep ''org/repo@v1'')\<lparr>
         action := Some \<lparr>Runs_PreIf = ''always()'', Runs_PostIf = ''always()''\<rparr>,
         remoteAction := Some \<lparr>URL = [], Org = ''org'', Repo = ''repo'', Path = [], Ref = ''v1''\<rparr>\<rparr>) of
      Inl _ \<Rightarrow> [] | Inr (_, _, evs) \<Rightarrow> evs) =
     [NewCompositeRunContext ''/cache/org-repo@v1/'', CompositeExecutor] \<and>
   ''/cache/org-repo@v1'' =
     ActionCacheDir exampleWorld (RunContext (exampleStep ''org/repo@v1'')) @ ''/'' @
       safeFilename ''org/repo@v1''"
proof -
  let ?ra = "\<lparr>URL = [], Org = ''org'', Repo = ''repo'', Path = [], Ref = ''v1''\<rparr>"
  let ?sar = "exampleStep ''org/repo@v1''"
  let ?sar' = "?sar\<lparr>action := Some \<lparr>Runs_PreIf = ''always()'', Runs_PostIf = ''always()''\<rparr>,
                    remoteAction := Some ?ra\<rparr>"
  let ?i = "\<lparr>inURL = ''https://github.com/org/repo'', inRef = ''v1'',
              inDir = ''/cache/org-repo@v1'', inToken = []\<rparr>"
  let ?evs = "[Interpolated ''org/repo@v1'', Clone ?i, ReadAction ''/cache/org-repo@v1'' []]"
  have p: "newRemoteAction ''org/repo@v1'' = Some ?ra"
    by (simp add: newRemoteAction_def HasPrefix_def parseAction_def parseRef_def notSlashAt_def
        notAt_def)
  have h1: "remoteAction ?sar = None \<or> action ?sar = None"
    by (simp add: exampleStep_def)
  have r: "resolveUses exampleWorld ?sar = ?sar\<lparr>remoteAction := Some ?ra\<rparr>"
    using p by (simp add: resolveUses_def exampleWorld_def exampleStep_def)
  have h2: "remoteAction (resolveUses exampleWorld ?sar) = Some ?ra"
    by (simp add: r)
  have h3: "\<not> skipsLocalCheckout exampleWorld (resolveUses exampleWorld ?sar) ?ra"
    by (simp add: skipsLocalCheckout_def)
  have ev: "cloneInput exampleWorld (?sar\<lparr>remoteAction := Some ?ra\<rparr>) ?ra = ?i"
    "cloneEvents exampleWorld (?sar\<lparr>remoteAction := Some ?ra\<rparr>) ?ra = [Clone ?i]"
    by (simp_all add: cloneInput_def cloneEvents_def isActionOnGiteaInstance_def CloneURL_def
        HasPrefix_def exampleWorld_def exampleStep_def exampleRunContext_def exampleConfig_def
        safeFilename_def Replace_def safeFilename_oldnew_def)
  have rp: "ReplaceGheActionWithGithubCom (Config (RunContext ?sar)) = []"
    by (simp add: exampleStep_def exampleRunContext_def exampleConfig_def)
  have u: "Uses (Step ?sar) = ''org/repo@v1''"
    by (simp add: exampleStep_def)
  have g: "gitClone exampleWorld ?i = None"
    by (simp add: exampleWorld_def)
  have rd: "readAction ?sar = (\<lambda>_ _ _. (Some \<lparr>Runs_PreIf = ''always()'', Runs_PostIf = ''always()''\<rparr>, None))"
    by (simp add: exampleStep_def)
  have f: "fetchAndRead exampleWorld (?sar\<lparr>remoteAction := Some ?ra\<rparr>) ?ra
      (getGithubContext exampleWorld (?sar\<lparr>remoteAction := Some ?ra\<rparr>)) =
      (None, ?sar', [Clone ?i, ReadAction ''/cache/org-repo@v1'' []])"
    by (simp add: fetchAndRead_def Let_def rp ev g pipeline_read readActionExecutor_eq rd
        del: NewPipelineExecutor.simps)
  have 1: "prepareActionExecutor exampleWorld ?sar = (None, ?sar', ?evs)"
    using prepareActionExecutor_fetch [OF h1 h2 h3] by (simp add: r f u)
  have 2: "Clone ?i \<in> set ?evs" by simp
  have 3: "mainStep exampleWorld ?sar' =
      (None, ?sar', [RunAction ''/cache/org-repo@v1'' ?ra])"
    by (simp add: mainStep_def Let_def IsCheckout_def exampleWorld_def exampleStep_def
        exampleRunContext_def exampleConfig_def safeFilename_def Replace_def
        safeFilename_oldnew_def)
  have 4: "RunAction ''/cache/org-repo@v1'' ?ra \<in> set [RunAction ''/cache/org-repo@v1'' ?ra]"
    by simp
  have 5: "getCompositeRunContext exampleWorld ?sar' =
      Inr (exampleRunContext,
           ?sar'\<lparr>compositeRunContext := Some exampleRunContext,
                  compositeSteps := Some (CompositeSteps 0)\<rparr>,
           [NewCompositeRunContext ''/cache/org-repo@v1/'', CompositeExecutor])"
    by (simp add: getCompositeRunContext_def Let_def exampleWorld_def exampleStep_def
        safeFilename_def Replace_def safeFilename_oldnew_def)
  have 6: "NewCompositeRunContext ''/cache/org-repo@v1/'' \<in>
      set [NewCompositeRunContext ''/cache/org-repo@v1/'', CompositeExecutor]"
    by simp
  from cache_dir_of_uses [where w = exampleWorld and sar = ?sar and r = None and sar' = ?sar'
      and evs = ?evs and i = ?i and ?r2.0 = None and ?sar2.0 = ?sar'
      and ?evs2.0 = "[RunAction ''/cache/org-repo@v1'' ?ra]" and d = "''/cache/org-repo@v1''"
      and ra = ?ra and crc = exampleRunContext
      and ?sar3.0 = "?sar'\<lparr>compositeRunContext := Some exampleRunContext,
                  compositeSteps := Some (CompositeSteps 0)\<rparr>"
      and ?evs3.0 = "[NewCompositeRunContext ''/cache/org-repo@v1/'', CompositeExecutor]"
      and loc = "''/cache/org-repo@v1/''"] 1 2 3 4 5 6
  have 7: "''/cache/org-repo@v1'' =
     ActionCacheDir exampleWorld (RunContext ?sar) @ ''/'' @ safeFilename ''org/repo@v1''"
    by (simp add: exampleStep_def)
  from 1 3 5 7 show ?thesis by simp
qed

section \<open>Resolution of an already resolved step\<close>

lemma pipeline_after_noop:
  assumes "e1 sar = (None, sar, [])"
  shows "NewPipelineExecutor [Some e1, Some e2] sar = e2 sar"
proof -
  obtain r s evs where e2: "e2 sar = (r, s, evs)" by (cases "e2 sar") auto
  then show ?thesis using assms by (cases r) simp_all
qed

text \<open>
  C8: a step whose reference has been parsed and whose action definition has been loaded
  is resolved again without any effect: the executor returns nil at once, with no event
  (no interpolation, no clone, no read) and the step unchanged, so that main of such a
  step is the execution of its main stage alone.
\<close>

theorem resolution_idempotent:
  assumes "remoteAction sar = Some ra" and "action sar = Some a"
  shows "prepareActionExecutor w sar = (None, sar, []) \<and>
         main w sar = runStepExecutor w stepStageMain (mainStep w) sar"
proof -
  have p: "prepareActionExecutor w sar = (None, sar, [])"
    using assms by (simp add: prepareActionExecutor_def)
  have "main w sar = runStepExecutor w stepStageMain (mainStep w) sar"
    unfolding main_def
    using pipeline_after_noop [of "prepareActionExecutor w" sar
        "runStepExecutor w stepStageMain (mainStep w)"] p
    by blast
  with p show ?thesis by simp
qed

theorem resolution_idempotent_witness:
  "prepareActionExecutor exampleWorld
     ((exampleStep ''actions/checkout@v4'')
        \<lparr>action := Some \<lparr>Runs_PreIf = [], Runs_PostIf = []\<rparr>,
         remoteAction := Some \<lparr>URL = [], Org = ''actions'', Repo = ''checkout'', Path = [], Ref = ''v4''\<rparr>\<rparr>) =
   (None, (exampleStep ''actions/checkout@v4'')
        \<lparr>action := Some \<lparr>Runs_PreIf = [], Runs_PostIf = []\<rparr>,
         remoteAction := Some \<lparr>URL = [], Org = ''actions'', Repo = ''checkout'', Path = [], Ref = ''v4''\<rparr>\<rparr>, [])"
  using resolution_idempotent [of "(exampleStep ''actions/checkout@v4'')
        \<lparr>action := Some \<lparr>Runs_PreIf = [], Runs_PostIf = []\<rparr>,
         remoteAction := Some \<lparr>URL = [], Org = ''actions'', Repo = ''checkout'', Path = [], Ref = ''v4''\<rparr>\<rparr>"
       "\<lparr>URL = [], Org = ''actions'', Repo = ''checkout'', Path = [], Ref = ''v4''\<rparr>"
       "\<lparr>Runs_PreIf = [], Runs_PostIf = []\<rparr>" exampleWorld]
  by simp

section \<open>The composite run context\<close>






end
